theory Spec2Isabelle
  imports Main "HOL-Library.List_Lexorder"
begin

section \<open>JavaScript strings and values\<close>

text \<open>
  A JavaScript string is a sequence of UTF-16 code units. The comment writer replaces code
  units far beyond Latin-1 (U+1680, U+2028, U+3000, ...), so a code unit is a natural number
  and a string a list of them. \<open>a > b\<close> on JavaScript strings compares code units
  lexicographically, which is the order of \<^theory_text>\<open>List_Lexorder\<close>.
  \<open>str\<close> turns a literal of the theory into such a string.
\<close>

type_synonym jstring = "nat list"

definition str :: "string \<Rightarrow> jstring" where
  "str s = map of_char s"

lemma str_Nil [simp]: "str [] = []"
  by (simp add: str_def)

lemma str_Cons [simp]: "str (c # cs) = of_char c # str cs"
  by (simp add: str_def)

lemma str_append: "str (a @ b) = str a @ str b"
  by (simp add: str_def)

text \<open>Truthiness of an optional string: \<open>undefined\<close> and \<open>""\<close> are falsy.\<close>

fun truthy :: "jstring option \<Rightarrow> bool" where
  "truthy None = False"
| "truthy (Some s) = (s \<noteq> [])"

text \<open>A template literal prints an absent value as \<open>undefined\<close>.\<close>

fun tpl :: "jstring option \<Rightarrow> jstring" where
  "tpl None = str ''undefined''"
| "tpl (Some s) = s"

text \<open>\<open>String.prototype.indexOf\<close> for a one-character pattern: the first index, or -1.\<close>

fun indexOf :: "jstring \<Rightarrow> nat \<Rightarrow> int" where
  "indexOf [] c = -1"
| "indexOf (x # xs) c =
     (if x = c then 0 else (let i = indexOf xs c in if i < 0 then -1 else i + 1))"

text \<open>\<open>String.prototype.split\<close> with a one-character separator.\<close>

fun consHead :: "nat \<Rightarrow> jstring list \<Rightarrow> jstring list" where
  "consHead x [] = [[x]]"
| "consHead x (w # ws) = (x # w) # ws"

fun split :: "nat \<Rightarrow> jstring \<Rightarrow> jstring list" where
  "split c [] = [[]]"
| "split c (x # xs) = (if x = c then [] # split c xs else consHead x (split c xs))"

text \<open>\<open>Array.prototype.join\<close> with a one-character separator.\<close>

fun join :: "nat \<Rightarrow> jstring list \<Rightarrow> jstring" where
  "join c [] = []"
| "join c [w] = w"
| "join c (w # v # ws) = w @ c # join c (v # ws)"

text \<open>
  \<open>String.prototype.trim\<close> strips the WhiteSpace and LineTerminator code units of
  ECMAScript from both ends: tab, VT, FF, space, NBSP, BOM, the Unicode space separators,
  LF, CR, LS and PS.
\<close>

definition isWhiteSpace :: "nat \<Rightarrow> bool" where
  "isWhiteSpace c \<longleftrightarrow>
     c \<in> {0x09, 0x0B, 0x0C, 0x20, 0xA0, 0xFEFF, 0x1680, 0x202F, 0x205F, 0x3000,
          0x0A, 0x0D, 0x2028, 0x2029} \<or> (0x2000 \<le> c \<and> c \<le> 0x200A)"

definition trim :: "jstring \<Rightarrow> jstring" where
  "trim s = rev (dropWhile isWhiteSpace (rev (dropWhile isWhiteSpace s)))"

text \<open>\<open>s.replace(/c/g, r)\<close> for a one-character pattern.\<close>

definition replaceAll :: "nat \<Rightarrow> jstring \<Rightarrow> jstring \<Rightarrow> jstring" where
  "replaceAll c r s = concat (map (\<lambda>x. if x = c then r else [x]) s)"

text \<open>
  \<open>toUpperCase\<close> on one code unit. Resource and method names of a discovery document are
  ASCII identifiers; the model maps \<open>a\<close>..\<open>z\<close> and leaves every other code unit as it is.
\<close>

definition toUpperCase :: "nat \<Rightarrow> nat" where
  "toUpperCase c = (if 97 \<le> c \<and> c \<le> 122 then c - 32 else c)"

section \<open>Errors\<close>

datatype error =
    MissingProperty jstring jstring  \<comment> \<open>checkExists with a parent type and a property name\<close>
  | MissingValue                     \<comment> \<open>checkExists without them\<close>
  | UnknownSchema jstring            \<comment> \<open>Attempted to generate stub for unknown schema\<close>
  | UnknownScalarType "jstring option"
  | UnrenderableType                 \<comment> \<open>the bare \<open>throw Error()\<close> of getType\<close>
  | TypeError                        \<comment> \<open>a property read on \<open>undefined\<close>\<close>

section \<open>The writers\<close>

text \<open>
  \<open>IndentedTextWriter\<close> over a string sink: the text written so far and the indent level.
  \<open>newLine\<close> and \<open>tabString\<close> are the constructor defaults, which every caller uses.
  Each \<open>indent--\<close> of the source follows an \<open>indent++\<close>, so the level never leaves the naturals.
\<close>

record writer =
  buffer :: jstring
  indent :: nat

definition newLine :: jstring where
  "newLine = [10]"

definition tabString :: jstring where
  "tabString = str ''    ''"

text \<open>\<open>write\<close> of the writers; the name \<open>write\<close> is taken in Isabelle.\<close>

definition write_chunk :: "jstring \<Rightarrow> writer \<Rightarrow> writer" where
  "write_chunk chunk w = w\<lparr>buffer := buffer w @ chunk\<rparr>"

definition tabs :: "nat \<Rightarrow> jstring" where
  "tabs n = concat (replicate n tabString)"

definition startIndentedLine :: "jstring \<Rightarrow> writer \<Rightarrow> writer" where
  "startIndentedLine chunk w = write_chunk (tabs (indent w) @ chunk) w"

definition writeLine :: "jstring \<Rightarrow> writer \<Rightarrow> writer" where
  "writeLine chunk w = startIndentedLine (chunk @ newLine) w"

definition indentInc :: "writer \<Rightarrow> writer" where
  "indentInc w = w\<lparr>indent := indent w + 1\<rparr>"

definition indentDec :: "writer \<Rightarrow> writer" where
  "indentDec w = w\<lparr>indent := indent w - 1\<rparr>"

text \<open>A callback of the source writes into the writer it is given and may throw.\<close>

type_synonym TypescriptWriterCallback = "writer \<Rightarrow> error + writer"

text \<open>What \<open>getType\<close> returns: \<open>string | TypescriptWriterCallback\<close>.\<close>

datatype rendered = Str jstring | Fn TypescriptWriterCallback

definition formatPropertyName :: "jstring \<Rightarrow> jstring" where
  "formatPropertyName name =
     (if indexOf name 46 \<ge> 0 \<or> indexOf name 45 \<ge> 0 \<or> indexOf name 64 \<ge> 0
      then [34] @ name @ [34] else name)"

definition beginLine :: "jstring \<Rightarrow> writer \<Rightarrow> writer" where
  "beginLine chunk w = startIndentedLine chunk w"

definition beginNewLine :: "jstring \<Rightarrow> writer \<Rightarrow> writer" where
  "beginNewLine chunk w = startIndentedLine chunk (write_chunk newLine w)"

definition endLine :: "jstring \<Rightarrow> writer \<Rightarrow> writer" where
  "endLine chunk w = write_chunk newLine (write_chunk chunk w)"

definition braces :: "jstring \<Rightarrow> TypescriptWriterCallback \<Rightarrow> writer \<Rightarrow> error + writer" where
  "braces text context w =
     (case context (indentInc (writeLine (text @ str '' {'') w)) of
        Inl e \<Rightarrow> Inl e
      | Inr w' \<Rightarrow> Inr (writeLine (str ''}'') (indentDec w')))"

definition referenceTypes :: "jstring \<Rightarrow> writer \<Rightarrow> writer" where
  "referenceTypes ty w = writeLine (str ''/// <reference types='' @ [34] @ ty @ [34] @ str '' />'') w"

definition namespace :: "jstring \<Rightarrow> TypescriptWriterCallback \<Rightarrow> writer \<Rightarrow> error + writer" where
  "namespace name context w = braces (str ''namespace '' @ name) context w"

definition declareNamespace :: "jstring \<Rightarrow> TypescriptWriterCallback \<Rightarrow> writer \<Rightarrow> error + writer" where
  "declareNamespace name context w =
     braces (str ''declare namespace '' @ name) context (writeLine [] w)"

definition interface :: "jstring \<Rightarrow> TypescriptWriterCallback \<Rightarrow> writer \<Rightarrow> error + writer" where
  "interface name context w = braces (str ''interface '' @ name) context w"

definition anonymysType :: "TypescriptWriterCallback \<Rightarrow> writer \<Rightarrow> error + writer" where
  "anonymysType context w =
     (case context (indentInc (endLine (str ''{'') w)) of
        Inl e \<Rightarrow> Inl e
      | Inr w' \<Rightarrow> Inr (startIndentedLine (str ''}'') (indentDec w')))"

text \<open>\<open>required ? "" : "?"\<close>\<close>

definition optionalMark :: "bool \<Rightarrow> jstring" where
  "optionalMark required = (if required then [] else str ''?'')"

fun property :: "jstring \<Rightarrow> rendered \<Rightarrow> bool \<Rightarrow> writer \<Rightarrow> error + writer" where
  "property name (Fn ty) required w =
     (case ty (startIndentedLine (formatPropertyName name @ optionalMark required @ str '': '') w) of
        Inl e \<Rightarrow> Inl e
      | Inr w' \<Rightarrow> Inr (endLine (str '';'') w'))"
| "property name (Str ty) required w =
     Inr (writeLine (formatPropertyName name @ optionalMark required @ str '': '' @ ty @ str '';'') w)"

subsection \<open>Comments\<close>

definition irregylarSpaces :: "nat list" where
  "irregylarSpaces =
     [0x000B, 0x000C, 0x00A0, 0x0085, 0x1680, 0x180E, 0xFEFF, 0x2000, 0x2001, 0x2002, 0x2003,
      0x2004, 0x2005, 0x2006, 0x2007, 0x2008, 0x2009, 0x200A, 0x200B, 0x2028, 0x2029, 0x202F,
      0x205F, 0x3000]"

definition maxLine :: nat where
  "maxLine = 150"

text \<open>
  \<open>split(/\r\n|\r|\n|\u000a\u000d|\u000a|\u000d|\u240a/g)\<close>: the alternatives are tried in
  order, so CR LF is one separator and CR, LF and U+240A are separators on their own.
\<close>

definition isLineBreak :: "nat \<Rightarrow> bool" where
  "isLineBreak c \<longleftrightarrow> c = 13 \<or> c = 10 \<or> c = 0x240A"

fun splitLines :: "jstring \<Rightarrow> jstring list" where
  "splitLines [] = [[]]"
| "splitLines [x] = (if isLineBreak x then [[], []] else [[x]])"
| "splitLines (x # y # ys) =
     (if x = 13 \<and> y = 10 then [] # splitLines ys
      else if isLineBreak x then [] # splitLines (y # ys)
      else consHead x (splitLines (y # ys)))"

text \<open>The inner loop over the words of a long line; \<open>cur\<close> is the source's \<open>newLine\<close>.\<close>

fun wrapWords :: "jstring list \<Rightarrow> jstring \<Rightarrow> jstring list" where
  "wrapWords [] cur = [cur]"
| "wrapWords (word # ws) cur =
     (if length cur + length word > maxLine then cur # wrapWords ws word
      else if cur = [] then wrapWords ws word
      else wrapWords ws (cur @ [32] @ word))"

definition wrapLine :: "jstring \<Rightarrow> jstring list" where
  "wrapLine line = (if length line > maxLine then wrapWords (split 32 line) [] else [line])"

definition escapeStars :: "jstring \<Rightarrow> jstring" where
  "escapeStars x = trim (replaceAll 42 (str ''&#42;'') x)"

definition replaceIrregular :: "jstring list \<Rightarrow> jstring list" where
  "replaceIrregular lines =
     fold (\<lambda>irregularSpace ls. map (replaceAll irregularSpace [32]) ls) irregylarSpaces lines"

text \<open>The array \<open>lines\<close> of \<open>comment\<close> when it reaches the output statements.\<close>

definition commentLines :: "jstring \<Rightarrow> jstring list" where
  "commentLines text =
     replaceIrregular (map escapeStars (concat (map wrapLine (splitLines (trim text)))))"

fun commentBody :: "bool \<Rightarrow> jstring list \<Rightarrow> writer \<Rightarrow> writer" where
  "commentBody avoidTrailingNewline [] w = w"
| "commentBody avoidTrailingNewline (line # rest) w =
     (let chunk = (if line \<noteq> [] then str '' * '' @ line else str '' *'')
      in commentBody avoidTrailingNewline rest
           (if avoidTrailingNewline \<and> rest \<noteq> [] then beginLine chunk w else writeLine chunk w))"

text \<open>\<open>text\<close> is \<open>None\<close> where the caller passes \<open>undefined\<close>, which the default turns into \<open>""\<close>.\<close>

definition comment :: "jstring option \<Rightarrow> bool \<Rightarrow> writer \<Rightarrow> writer" where
  "comment text avoidTrailingNewline w =
     (if \<not> truthy text then w
      else (case commentLines (tpl text) of
              [] \<Rightarrow> w
            | [l] \<Rightarrow> (if avoidTrailingNewline then beginLine else writeLine)
                       (str ''/** '' @ l @ str '' */'') w
            | ls \<Rightarrow> writeLine (str '' */'')
                      (commentBody avoidTrailingNewline ls (writeLine (str ''/**'') w))))"

text \<open>
  The two substitutions of a comment line, one code unit at a time: \<open>starChar\<close> is the
  replacement of \<open>*\<close> alone, and \<open>normalizeChar\<close> follows the words of the specification: a
  \<open>*\<close> becomes \<open>&#42;\<close>, each of the irregular spaces becomes one ASCII space, and every other
  code unit stays.
\<close>

definition starChar :: "nat \<Rightarrow> jstring" where
  "starChar x = (if x = 42 then str ''&#42;'' else [x])"

definition normalizeChar :: "nat \<Rightarrow> jstring" where
  "normalizeChar c =
     (if c = 42 then str ''&#42;'' else if c \<in> set irregylarSpaces then [32] else [c])"

definition formatComment :: "jstring option \<Rightarrow> jstring option" where
  "formatComment c = (if \<not> truthy c then Some [] else c)"

definition writeR :: "rendered \<Rightarrow> writer \<Rightarrow> error + writer" where
  "writeR chunk w = (case chunk of Str t \<Rightarrow> Inr (write_chunk t w) | Fn f \<Rightarrow> f w)"

text \<open>The loop of \<open>method\<close> over its parameters; \<open>index + 1 < parameters.length\<close> holds
  exactly when more parameters follow.\<close>

fun methodParameters :: "(jstring \<times> rendered) list \<Rightarrow> bool \<Rightarrow> writer \<Rightarrow> error + writer" where
  "methodParameters [] singleLine w = Inr w"
| "methodParameters ((parameter, ty) # rest) singleLine w =
     (case writeR ty (write_chunk (parameter @ str '': '') w) of
        Inl e \<Rightarrow> Inl e
      | Inr w1 \<Rightarrow>
          methodParameters rest singleLine
            (if rest \<noteq> []
             then (let w2 = write_chunk (str '','') w1
                   in if singleLine then write_chunk (str '' '') w2 else beginNewLine [] w2)
             else w1))"

text \<open>\<open>method\<close> of \<open>TypescriptTextWriter\<close>; the callbacks of the emitter bind a variable \<open>method\<close>.\<close>

definition method_decl ::
  "jstring \<Rightarrow> (jstring \<times> rendered) list \<Rightarrow> jstring \<Rightarrow> bool \<Rightarrow> writer \<Rightarrow> error + writer" where
  "method_decl name parameters returnType singleLine w =
     (case methodParameters parameters singleLine (startIndentedLine (name @ str ''('') w) of
        Inl e \<Rightarrow> Inl e
      | Inr w1 \<Rightarrow> Inr (endLine [] (write_chunk (str ''): '' @ returnType @ str '';'') w1)))"

section \<open>The discovery document\<close>

datatype JsonSchema = JsonSchema
  (s_id: "jstring option")
  (s_type: "jstring option")
  (s_ref: "jstring option")
  (s_description: "jstring option")
  (s_required: "bool option")
  (s_repeated: "bool option")
  (s_items: "JsonSchema option")
  (s_properties: "(jstring \<times> JsonSchema) list option")
  (s_additionalProperties: "JsonSchema option")

text \<open>
  A \<open>Record<string, T>\<close> is an association list in the enumeration order of its keys; the keys
  of a JavaScript object are distinct. \<open>request\<close> and \<open>response\<close> are objects with an optional
  \<open>$ref\<close>.
\<close>

record RestMethod =
  m_id :: "jstring option"
  m_description :: "jstring option"
  m_parameters :: "(jstring \<times> JsonSchema) list option"
  m_request :: "jstring option option"
  m_response :: "jstring option option"

text \<open>
  Every use of \<open>resource.methods\<close> and \<open>resource.resources\<close> treats an absent mapping as an
  empty one (\<open>forEachOrdered\<close> returns, \<open>for ... in\<close> does not iterate, \<open>|| {}\<close>), so the two
  fields are plain lists.
\<close>

datatype RestResource = RestResource
  (r_methods: "(jstring \<times> RestMethod) list")
  (r_resources: "(jstring \<times> RestResource) list")

record OAuth2 =
  scopes :: "(jstring \<times> jstring option) list option"

record Auth =
  oauth2 :: "OAuth2 option"

record RestDescription =
  api_id :: "jstring option"
  api_name :: "jstring option"
  api_version :: "jstring option"
  api_title :: "jstring option"
  api_ownerName :: "jstring option"
  api_documentationLink :: "jstring option"
  api_schemas :: "(jstring \<times> JsonSchema) list option"
  api_parameters :: "(jstring \<times> JsonSchema) list option"
  api_methods :: "(jstring \<times> RestMethod) list"
  api_resources :: "(jstring \<times> RestResource) list"
  api_auth :: "Auth option"

section \<open>Ordered iteration\<close>

text \<open>The comparator of both sorts: \<open>(a, b) => a > b ? 1 : -1\<close>.\<close>

definition compareKeys :: "jstring \<Rightarrow> jstring \<Rightarrow> int" where
  "compareKeys a b = (if a > b then 1 else -1)"

text \<open>
  \<open>Array.prototype.sort\<close> with that comparator, as an insertion sort: on the distinct keys of
  an object the comparator is a strict total order, and every sorting algorithm returns the
  same array.
\<close>

fun insertKey :: "jstring \<Rightarrow> jstring list \<Rightarrow> jstring list" where
  "insertKey a [] = [a]"
| "insertKey a (b # bs) = (if compareKeys a b > 0 then b # insertKey a bs else a # b # bs)"

definition sortStrings :: "jstring list \<Rightarrow> jstring list" where
  "sortStrings ks = foldr insertKey ks []"

definition keysOrdered :: "(jstring \<times> 'v) list \<Rightarrow> jstring list" where
  "keysOrdered record = sortStrings (map fst record)"

text \<open>The pairs \<open>(key, record[key])\<close> in the order in which \<open>forEachOrdered\<close> visits them.\<close>

definition orderedEntries :: "(jstring \<times> 'v) list \<Rightarrow> (jstring \<times> 'v) list" where
  "orderedEntries record =
     List.map_filter (\<lambda>key. map_option (Pair key) (map_of record key)) (keysOrdered record)"

fun iterate ::
  "('v \<Rightarrow> jstring \<Rightarrow> nat \<Rightarrow> 's \<Rightarrow> error + 's) \<Rightarrow> (jstring \<times> 'v) list \<Rightarrow> nat \<Rightarrow> 's \<Rightarrow> error + 's" where
  "iterate iterator [] index s = Inr s"
| "iterate iterator ((key, v) # rest) index s =
     (case iterator v key index s of
        Inl e \<Rightarrow> Inl e
      | Inr s' \<Rightarrow> iterate iterator rest (index + 1) s')"

definition forEachOrdered ::
  "(jstring \<times> 'v) list option \<Rightarrow> ('v \<Rightarrow> jstring \<Rightarrow> nat \<Rightarrow> 's \<Rightarrow> error + 's) \<Rightarrow> 's \<Rightarrow> error + 's" where
  "forEachOrdered record iterator s =
     (case record of
        None \<Rightarrow> Inr s
      | Some r \<Rightarrow> iterate iterator (orderedEntries r) 0 s)"

definition sortKeys :: "(jstring \<times> 'v) list \<Rightarrow> (jstring \<times> 'v) list" where
  "sortKeys record = orderedEntries record"

lemma lookup_keys_subset:
  "(k, v) \<in> set (List.map_filter (\<lambda>key. map_option (Pair key) (map_of r key)) ks)
   \<Longrightarrow> (k, v) \<in> set r"
  by (induction ks) (auto split: option.splits dest: map_of_SomeD)

lemma orderedEntries_subset: "(k, v) \<in> set (orderedEntries r) \<Longrightarrow> (k, v) \<in> set r"
  unfolding orderedEntries_def by (rule lookup_keys_subset)

lemma iterate_cong:
  "(\<And>v k i t. (k, v) \<in> set es \<Longrightarrow> f v k i t = g v k i t)
   \<Longrightarrow> iterate f es i s = iterate g es i s"
  by (induction es arbitrary: i s) (auto split: sum.splits)

lemma forEachOrdered_cong [fundef_cong]:
  assumes "record = record'" and "s = s'"
    and "\<And>r v k i t. record' = Some r \<Longrightarrow> (k, v) \<in> set r \<Longrightarrow> f v k i t = g v k i t"
  shows "forEachOrdered record f s = forEachOrdered record' g s'"
  using assms
  by (auto simp: forEachOrdered_def split: option.splits
           intro!: iterate_cong dest: orderedEntries_subset)

section \<open>The type renderer\<close>

definition typesMap :: "jstring \<Rightarrow> jstring option" where
  "typesMap t =
     (if t = str ''integer'' then Some (str ''number'')
      else if t = str ''object'' then Some (str ''any'')
      else if t = str ''any'' then Some (str ''any'')
      else if t = str ''string'' then Some (str ''string'')
      else None)"

definition isEmptySchema :: "JsonSchema \<Rightarrow> bool" where
  "isEmptySchema schema \<longleftrightarrow>
     (case s_properties schema of None \<Rightarrow> True | Some ps \<Rightarrow> ps = [])
     \<and> s_additionalProperties schema = None"

text \<open>\<open>data.description && writer.comment(formatComment(data.description))\<close>\<close>

definition commentIf :: "jstring option \<Rightarrow> writer \<Rightarrow> writer" where
  "commentIf description w =
     (if truthy description then comment (formatComment description) False w else w)"

lemma size_entry_less:
  "(k, v) \<in> set r \<Longrightarrow> size v < Suc (size_list (size_prod (\<lambda>_. 0) size) r)"
  by (induction r) auto

function (sequential) getType ::
  "JsonSchema \<Rightarrow> (jstring \<times> JsonSchema) list option \<Rightarrow> error + rendered" where
  "getType (JsonSchema sid ty rf descr req rep items props addl) schemas =
     (if ty = Some (str ''array'') then
        (case items of
           None \<Rightarrow> Inl (MissingProperty (str ''items'') (str ''array''))
         | Some its \<Rightarrow>
             (case getType its schemas of
                Inl e \<Rightarrow> Inl e
              | Inr (Str child) \<Rightarrow> Inr (Str (child @ str ''[]''))
              | Inr (Fn child) \<Rightarrow>
                  Inr (Fn (\<lambda>writer.
                    case child (write_chunk (str ''Array<'') writer) of
                      Inl e \<Rightarrow> Inl e
                    | Inr w1 \<Rightarrow> Inr (write_chunk (str ''>'') w1)))))
      else if ty = Some (str ''object'') \<and> props \<noteq> None then
        Inr (Fn (\<lambda>writer. anonymysType (\<lambda>writer.
          case forEachOrdered props (\<lambda>prop propertyName index writer.
                 case getType prop schemas of
                   Inl e \<Rightarrow> Inl e
                 | Inr t \<Rightarrow> property propertyName t (s_required prop = Some True)
                              (commentIf (s_description prop) writer)) writer of
            Inl e \<Rightarrow> Inl e
          | Inr w1 \<Rightarrow>
              (case addl of
                 None \<Rightarrow> Inr w1
               | Some ap \<Rightarrow>
                   (case getType ap schemas of
                      Inl e \<Rightarrow> Inl e
                    | Inr t \<Rightarrow> property (str ''[key: string]'') t True w1))) writer))
      else if ty = Some (str ''object'') \<and> addl \<noteq> None then
        Inr (Fn (\<lambda>writer.
          case addl of
            None \<Rightarrow> Inl MissingValue
          | Some ap \<Rightarrow>
              (case getType ap schemas of
                 Inl e \<Rightarrow> Inl e
               | Inr child \<Rightarrow>
                   (case writeR child (write_chunk (str ''Record<string, '') writer) of
                      Inl e \<Rightarrow> Inl e
                    | Inr w1 \<Rightarrow> Inr (write_chunk (str ''>'') w1)))))
      else if truthy ty then
        (let t = (case typesMap (tpl ty) of Some m \<Rightarrow> m | None \<Rightarrow> tpl ty)
         in Inr (Str (if rep = Some True then t @ str '' | '' @ t @ str ''[]'' else t)))
      else if truthy rf then
        (case schemas of
           None \<Rightarrow> Inl MissingValue
         | Some table \<Rightarrow>
             (case map_of table (tpl rf) of
                None \<Rightarrow> Inl TypeError
              | Some referencedType \<Rightarrow>
                  if isEmptySchema referencedType then Inr (Str (str ''any''))
                  else Inr (Str (tpl rf))))
      else Inl UnrenderableType)"
  by pat_completeness auto
termination
  by (relation "measure (\<lambda>(t, schemas). size t)") (auto dest: size_entry_less)

text \<open>
  The callback that the source writes out three times, for the properties of a schema
  interface, of an anonymous structural type and of a method's request parameter:
  \<open>data.description && writer.comment(...); writer.property(key, getType(data, schemas),
  data.required || false)\<close>.
\<close>

definition writeProperty ::
  "(jstring \<times> JsonSchema) list option \<Rightarrow> JsonSchema \<Rightarrow> jstring \<Rightarrow> nat \<Rightarrow> writer \<Rightarrow> error + writer" where
  "writeProperty schemas data key index writer =
     (case getType data schemas of
        Inl e \<Rightarrow> Inl e
      | Inr t \<Rightarrow> property key t (s_required data = Some True)
                   (commentIf (s_description data) writer))"

text \<open>\<open>if (type.additionalProperties) writer.property("[key: string]", getType(...))\<close>\<close>

definition writeIndexSignature ::
  "(jstring \<times> JsonSchema) list option \<Rightarrow> JsonSchema option \<Rightarrow> writer \<Rightarrow> error + writer" where
  "writeIndexSignature schemas addl writer =
     (case addl of
        None \<Rightarrow> Inr writer
      | Some ap \<Rightarrow>
          (case getType ap schemas of
             Inl e \<Rightarrow> Inl e
           | Inr t \<Rightarrow> property (str ''[key: string]'') t True writer))"

section \<open>The declaration emitter\<close>

definition getNamespace :: "jstring \<Rightarrow> jstring" where
  "getNamespace path = join 46 (butlast (split 46 path))"

definition getName :: "jstring \<Rightarrow> jstring" where
  "getName path = last (split 46 path)"

text \<open>\<open>text[0].toUpperCase() + text.substring(1)\<close>; \<open>text[0]\<close> is \<open>undefined\<close> on the empty string.\<close>

fun firstLetterUp :: "jstring \<Rightarrow> error + jstring" where
  "firstLetterUp [] = Inl TypeError"
| "firstLetterUp (c # cs) = Inr (toUpperCase c # cs)"

definition getResourceTypeName :: "jstring \<Rightarrow> error + jstring" where
  "getResourceTypeName resourceName =
     (case firstLetterUp resourceName of
        Inl e \<Rightarrow> Inl e
      | Inr n \<Rightarrow> Inr (n @ str ''Resource''))"

definition getMethodReturn ::
  "RestMethod \<Rightarrow> (jstring \<times> JsonSchema) list option \<Rightarrow> error + jstring" where
  "getMethodReturn method schemas =
     (case schemas of
        None \<Rightarrow> Inl MissingValue
      | Some table \<Rightarrow>
          (let name = (if map_of table (str ''Request'') \<noteq> None
                       then str ''client.Request'' else str ''Request'')
           in case m_response method of
                Some schemaName \<Rightarrow>
                  (case (if truthy schemaName then map_of table (tpl schemaName) else None) of
                     Some schema \<Rightarrow>
                       if \<not> isEmptySchema schema
                       then Inr (name @ str ''<'' @ tpl schemaName @ str ''>'')
                       else Inr (name @ str ''<{}>'')
                   | None \<Rightarrow> Inr (name @ str ''<{}>''))
              | None \<Rightarrow> Inr (name @ str ''<void>'')))"

text \<open>\<open>{ ...a, ...b }\<close>: the keys of \<open>a\<close> keep their place and take the value of \<open>b\<close> where
  \<open>b\<close> has the key; the other keys of \<open>b\<close> follow.\<close>

definition spread :: "(jstring \<times> 'v) list \<Rightarrow> (jstring \<times> 'v) list \<Rightarrow> (jstring \<times> 'v) list" where
  "spread a b =
     map (\<lambda>(k, v). (k, case map_of b k of Some v' \<Rightarrow> v' | None \<Rightarrow> v)) a
     @ filter (\<lambda>(k, v). map_of a k = None) b"

text \<open>The array \<open>requestBody\<close> of a method.\<close>

definition requestBody ::
  "RestMethod \<Rightarrow> (jstring \<times> JsonSchema) list option \<Rightarrow> error + (jstring \<times> rendered) list" where
  "requestBody method schemas =
     (let schemaName = (case m_request method of None \<Rightarrow> None | Some r \<Rightarrow> r)
      in if truthy schemaName then
           (case schemas of
              None \<Rightarrow> Inl MissingValue
            | Some table \<Rightarrow>
                (case map_of table (tpl schemaName) of
                   None \<Rightarrow> Inl TypeError
                 | Some schema \<Rightarrow>
                     Inr [(str ''body'',
                           Str (if isEmptySchema schema then str ''any'' else tpl schemaName))]))
         else Inr [])"

text \<open>The callback of \<open>writeResources\<close> for one method of a resource.\<close>

definition writeMethod ::
  "(jstring \<times> JsonSchema) list \<Rightarrow> (jstring \<times> JsonSchema) list option
   \<Rightarrow> RestMethod \<Rightarrow> jstring \<Rightarrow> nat \<Rightarrow> writer \<Rightarrow> error + writer" where
  "writeMethod parameters schemas method name index out =
     (let out1 = commentIf (m_description method) out
      in case requestBody method schemas of
           Inl e \<Rightarrow> Inl e
         | Inr body \<Rightarrow>
             (case m_id method of
                None \<Rightarrow> Inl (MissingProperty (str ''id'') (str ''method''))
              | Some mid \<Rightarrow>
                  (case getMethodReturn method schemas of
                     Inl e \<Rightarrow> Inl e
                   | Inr returnType \<Rightarrow>
                       method_decl (getName mid)
                         ((str ''request'',
                           Fn (\<lambda>writer. anonymysType
                                 (forEachOrdered
                                    (Some (spread parameters
                                             (case m_parameters method of None \<Rightarrow> [] | Some ps \<Rightarrow> ps)))
                                    (writeProperty schemas)) writer)) # body)
                         returnType False out1)))"

lemma size_resources_less:
  "(k, v) \<in> set r \<Longrightarrow>
   size_list (size_prod (\<lambda>_. 0) size) (r_resources v) < size_list (size_prod (\<lambda>_. 0) size) r"
  by (induction r) (auto, (cases v, simp)+)

function writeResources ::
  "(jstring \<times> RestResource) list \<Rightarrow> (jstring \<times> JsonSchema) list
   \<Rightarrow> (jstring \<times> JsonSchema) list option \<Rightarrow> writer \<Rightarrow> error + writer" where
  "writeResources resources parameters schemas out =
     forEachOrdered (Some resources) (\<lambda>resource resourceName index out.
       case getResourceTypeName resourceName of
         Inl e \<Rightarrow> Inl e
       | Inr resourceInterfaceName \<Rightarrow>
           (case writeResources (r_resources resource) parameters schemas out of
              Inl e \<Rightarrow> Inl e
            | Inr out1 \<Rightarrow>
                interface resourceInterfaceName (\<lambda>out.
                  case forEachOrdered (Some (r_methods resource))
                         (writeMethod parameters schemas) out of
                    Inl e \<Rightarrow> Inl e
                  | Inr out2 \<Rightarrow>
                      forEachOrdered (Some (r_resources resource))
                        (\<lambda>childResource childResourceName index out.
                           case firstLetterUp childResourceName of
                             Inl e \<Rightarrow> Inl e
                           | Inr n \<Rightarrow> property childResourceName (Str (n @ str ''Resource'')) True out)
                        out2) out1)) out"
  by pat_completeness auto
termination
  by (relation "measure (\<lambda>(rs, ps, schemas, out). size_list (size_prod (\<lambda>_. 0) size) rs)")
     (auto dest: size_resources_less)

declare writeResources.simps [simp del]



text \<open>
  \<open>version.match(/v(\d+)?\.?(\d+)?/)\<close>: every part after the \<open>v\<close> is optional and greedy, so
  the match starts at the first \<open>v\<close> and takes the digits, a dot and the digits that follow it.
\<close>

fun afterFirstV :: "jstring \<Rightarrow> jstring option" where
  "afterFirstV [] = None"
| "afterFirstV (c # cs) = (if c = 118 then Some cs else afterFirstV cs)"

definition isDigit :: "nat \<Rightarrow> bool" where
  "isDigit c \<longleftrightarrow> 48 \<le> c \<and> c \<le> 57"

definition convertVersion :: "jstring \<Rightarrow> jstring" where
  "convertVersion version =
     (case afterFirstV version of
        None \<Rightarrow> str ''0.0''
      | Some rest \<Rightarrow>
          (let major = takeWhile isDigit rest;
               rest1 = dropWhile isDigit rest;
               rest2 = (case rest1 of c # cs \<Rightarrow> if c = 46 then cs else rest1 | [] \<Rightarrow> rest1);
               minor = takeWhile isDigit rest2
           in (if major = [] then str ''0'' else major) @ str ''.''
              @ (if minor = [] then str ''0'' else minor)))"

text \<open>\<open>processResource\<close>: the methods of a resource, then those of its sub-resources.\<close>

fun processResource :: "RestResource \<Rightarrow> RestMethod list" where
  "processResource (RestResource ms rs) =
     map snd ms @ concat (map (\<lambda>(k, r). processResource r) rs)"

text \<open>The only mutable field of the class \<open>App\<close>.\<close>

record App =
  seenSchemaRefs :: "jstring set"

text \<open>The callback of \<open>processApi\<close> for one named schema.\<close>

definition writeSchema ::
  "(jstring \<times> JsonSchema) list option \<Rightarrow> JsonSchema \<Rightarrow> jstring \<Rightarrow> nat \<Rightarrow> writer \<Rightarrow> error + writer" where
  "writeSchema schemas schema key index writer =
     (case s_id schema of
        None \<Rightarrow> Inl MissingValue
      | Some sid \<Rightarrow>
          if \<not> isEmptySchema schema then
            interface sid (\<lambda>writer.
              case forEachOrdered (s_properties schema) (writeProperty schemas) writer of
                Inl e \<Rightarrow> Inl e
              | Inr w1 \<Rightarrow> writeIndexSignature schemas (s_additionalProperties schema) w1) writer
          else Inr writer)"

text \<open>The callback of \<open>processApi\<close> that exposes one root resource as a constant.\<close>

definition writeResourceConst :: "RestResource \<Rightarrow> jstring \<Rightarrow> nat \<Rightarrow> writer \<Rightarrow> error + writer" where
  "writeResourceConst resource resourceName index writer =
     (if resourceName \<noteq> str ''debugger'' then
        (case getResourceTypeName resourceName of
           Inl e \<Rightarrow> Inl e
         | Inr n \<Rightarrow>
             Inr (writeLine (str ''const '' @ resourceName @ str '': '' @ n @ str '';'')
                    (endLine [] writer)))
      else Inr writer)"

definition fileHeader :: "RestDescription \<Rightarrow> jstring \<Rightarrow> writer \<Rightarrow> writer" where
  "fileHeader api url =
     referenceTypes (str ''gapi.client'')
     \<circ> writeLine []
     \<circ> writeLine (str ''// Generated from: '' @ url)
     \<circ> writeLine (str ''// In case of any problems please post issue to https://github.com/declanvong/google-api-typings-generator'')
     \<circ> writeLine (str ''// This file was generated by https://github.com/declanvong/google-api-typings-generator. Please do not edit it manually.'')
     \<circ> writeLine (str ''// These definitions are for the Google API Javascript Client: https://github.com/google/google-api-javascript-client'')
     \<circ> writeLine (str ''// IMPORTANT'')
     \<circ> writeLine []
     \<circ> writeLine (str ''// TypeScript Version: 3.7'')
     \<circ> writeLine (str ''// Definitions: https://github.com/DefinitelyTyped/DefinitelyTyped'')
     \<circ> writeLine (str ''//                 Declan Vong <https://github.com/declanvong>'')
     \<circ> writeLine (str ''// Definitions by: Bolisov Alexey <https://github.com/Bolisov>'')
     \<circ> writeLine (str ''// Project: '' @ tpl (api_documentationLink api))
     \<circ> writeLine (str ''// Type definitions for non-npm package '' @ tpl (api_ownerName api)
                  @ str '' '' @ tpl (api_title api) @ str '' '' @ tpl (api_version api) @ str '' ''
                  @ convertVersion (case api_version api of None \<Rightarrow> [] | Some v \<Rightarrow> if v = [] then [] else v))"

text \<open>The two overloads of \<open>load\<close>.\<close>

definition loadParameters :: "RestDescription \<Rightarrow> (jstring \<times> rendered) list" where
  "loadParameters api =
     [(str ''name'', Str ([34] @ tpl (api_name api) @ [34])),
      (str ''version'', Str ([34] @ tpl (api_version api) @ [34]))]"

text \<open>
  \<open>processApi\<close> is a method of \<open>App\<close>; \<open>app\<close> is the instance. The stream it writes is created
  empty; the result is the text of \<open>index.d.ts\<close>, or the error that aborts the generation.
  The unused \<open>methods\<close> array is computed first, and \<open>getNamespace(x.id)\<close> fails there on a
  method without an \<open>id\<close>.
\<close>

definition processApi ::
  "App \<Rightarrow> jstring \<Rightarrow> RestDescription \<Rightarrow> bool \<Rightarrow> jstring \<Rightarrow> error + jstring" where
  "processApi app destinationDirectory api actualVersion url =
     (let rawMethods = processResource (RestResource (api_methods api) (api_resources api))
      in if \<exists>x \<in> set rawMethods. m_id x = None then Inl TypeError
         else
           (case declareNamespace (str ''gapi.client'') (\<lambda>writer.
                   case method_decl (str ''function load'') (loadParameters api)
                          (str ''PromiseLike<void>'') True
                          (comment (formatComment (Some (str ''Load '' @ tpl (api_title api)
                                      @ str '' '' @ tpl (api_version api)))) False writer) of
                     Inl e \<Rightarrow> Inl e
                   | Inr w1 \<Rightarrow>
                       (case method_decl (str ''function load'')
                               (loadParameters api @ [(str ''callback'', Str (str ''() => any''))])
                               (str ''void'') True w1 of
                          Inl e \<Rightarrow> Inl e
                        | Inr w2 \<Rightarrow>
                            (case api_name api of
                               None \<Rightarrow> Inl (MissingProperty (str ''name'') (str ''api''))
                             | Some name \<Rightarrow>
                                 namespace name (\<lambda>writer.
                                   case forEachOrdered (api_schemas api)
                                          (writeSchema (api_schemas api)) writer of
                                     Inl e \<Rightarrow> Inl e
                                   | Inr w3 \<Rightarrow>
                                       (case writeResources (api_resources api)
                                               (case api_parameters api of None \<Rightarrow> [] | Some ps \<Rightarrow> ps)
                                               (api_schemas api) w3 of
                                          Inl e \<Rightarrow> Inl e
                                        | Inr w4 \<Rightarrow>
                                            forEachOrdered (Some (api_resources api))
                                              writeResourceConst w4))
                                   (endLine [] w2))))
                  (fileHeader api url \<lparr>buffer = [], indent = 0\<rparr>) of
              Inl e \<Rightarrow> Inl e
            | Inr w \<Rightarrow> Inr (buffer w)))"

section \<open>The stub value generator\<close>

text \<open>
  \<open>scope(context, startTag, endTag)\<close> is \<open>scope_begin startTag\<close>, the callback, then
  \<open>scope_end endTag\<close>; when the callback throws, the second half does not run.
\<close>

definition scope_begin :: "jstring \<Rightarrow> writer \<Rightarrow> writer" where
  "scope_begin startTag w = indentInc (write_chunk startTag w)"

definition scope_end :: "jstring \<Rightarrow> writer \<Rightarrow> writer" where
  "scope_end endTag w = startIndentedLine endTag (write_chunk newLine (indentDec w))"

text \<open>
  The generator mutates the field \<open>seenSchemaRefs\<close> of the \<open>App\<close> and the writer \<open>scope\<close>, and a
  caller of \<open>processService\<close> keeps the \<open>App\<close> after an error. So a call ends with both states:
  it returned, or it threw. The functions recurse through the schema table, which may be
  cyclic, and through \<open>writeObject\<close> and \<open>writePropertyValue\<close> calling each other on the same
  node. The first argument bounds the depth of the calls; \<open>None\<close> is a call that has not
  come back within it.
\<close>

datatype outcome = Returned App writer | Threw error App writer

definition after :: "outcome option \<Rightarrow> (writer \<Rightarrow> writer) \<Rightarrow> outcome option" where
  "after r rest =
     (case r of Some (Returned app scope) \<Rightarrow> Some (Returned app (rest scope)) | _ \<Rightarrow> r)"

text \<open>
  A loop over the entries of a record in a given order, stopping where the callback does not
  return: \<open>for (const key in record)\<close> on the record itself, \<open>forEachOrdered\<close> on its
  ordered entries.
\<close>

fun forEachEntry ::
  "(jstring \<times> 'v) list \<Rightarrow> ('v \<Rightarrow> jstring \<Rightarrow> App \<Rightarrow> writer \<Rightarrow> outcome option)
   \<Rightarrow> App \<Rightarrow> writer \<Rightarrow> outcome option" where
  "forEachEntry [] iterator app scope = Some (Returned app scope)"
| "forEachEntry ((key, v) # rest) iterator app scope =
     (case iterator v key app scope of
        Some (Returned app' scope') \<Rightarrow> forEachEntry rest iterator app' scope'
      | r \<Rightarrow> r)"

function writePropertyValue :: "nat \<Rightarrow> RestDescription \<Rightarrow> JsonSchema \<Rightarrow> App \<Rightarrow> writer \<Rightarrow> outcome option"
  and writeArray :: "nat \<Rightarrow> RestDescription \<Rightarrow> JsonSchema \<Rightarrow> App \<Rightarrow> writer \<Rightarrow> outcome option"
  and writeObject :: "nat \<Rightarrow> RestDescription \<Rightarrow> JsonSchema \<Rightarrow> App \<Rightarrow> writer \<Rightarrow> outcome option"
  and writeSchemaRef :: "nat \<Rightarrow> RestDescription \<Rightarrow> jstring \<Rightarrow> App \<Rightarrow> writer \<Rightarrow> outcome option"
  and writeProperties ::
    "nat \<Rightarrow> RestDescription \<Rightarrow> (jstring \<times> JsonSchema) list \<Rightarrow> App \<Rightarrow> writer \<Rightarrow> outcome option"
where
  "writePropertyValue 0 api prop app scope = None"
| "writePropertyValue (Suc n) api prop app scope =
     (let t = s_type prop
      in if t = Some (str ''number'') \<or> t = Some (str ''integer'')
         then Some (Returned app (write_chunk (str ''42'') scope))
         else if t = Some (str ''boolean'')
         then Some (Returned app (write_chunk (str ''true'') scope))
         else if t = Some (str ''string'')
         then Some (Returned app (write_chunk ([34] @ str ''Test string'' @ [34]) scope))
         else if t = Some (str ''array'')
         then (case s_items prop of
                 None \<Rightarrow> Some (Threw (MissingProperty (str ''items'') (str ''array'')) app scope)
               | Some items \<Rightarrow> writeArray n api items app scope)
         else if t = Some (str ''object'')
         then writeObject n api prop app scope
         else if t = Some (str ''any'')
         then Some (Returned app (write_chunk (str ''42'') scope))
         else Some (Threw (UnknownScalarType t) app scope))"
| "writeArray 0 api items app scope = None"
| "writeArray (Suc n) api items app scope =
     (let schemaName = s_ref items
      in if truthy schemaName \<and> tpl schemaName \<in> seenSchemaRefs app
         then Some (Returned app (write_chunk (str ''undefined'') scope))
         else after
                (if truthy schemaName
                 then writeSchemaRef n api (tpl schemaName) app
                        (beginNewLine [] (scope_begin (str ''['') scope))
                 else writePropertyValue n api items app
                        (beginNewLine [] (scope_begin (str ''['') scope)))
                (scope_end (str '']'')))"
| "writeObject 0 api object app scope = None"
| "writeObject (Suc n) api object app scope =
     (let schemaName = (case s_additionalProperties object of None \<Rightarrow> None | Some ap \<Rightarrow> s_ref ap)
      in if truthy schemaName \<and> tpl schemaName \<in> seenSchemaRefs app
         then Some (Returned app (write_chunk (str ''undefined'') scope))
         else (case s_properties object of
                 Some props \<Rightarrow>
                   after (writeProperties n api props app (scope_begin (str ''{'') scope))
                     (scope_end (str ''}''))
               | None \<Rightarrow>
                   (case s_additionalProperties object of
                      Some ap \<Rightarrow>
                        after
                          (if truthy schemaName
                           then writeSchemaRef n api (tpl schemaName) app
                                  (beginNewLine (str ''A: '') (scope_begin (str ''{'') scope))
                           else writePropertyValue n api ap app
                                  (beginNewLine (str ''A: '') (scope_begin (str ''{'') scope)))
                          (scope_end (str ''}''))
                    | None \<Rightarrow> writePropertyValue n api object app scope)))"
| "writeSchemaRef 0 api schemaName app scope = None"
| "writeSchemaRef (Suc n) api schemaName app scope =
     (if schemaName \<in> seenSchemaRefs app
      then Some (Returned app (write_chunk (str ''undefined'') scope))
      else (case api_schemas api of
              None \<Rightarrow> Some (Threw MissingValue app scope)
            | Some schemas \<Rightarrow>
                (case map_of schemas schemaName of
                   None \<Rightarrow> Some (Threw (UnknownSchema schemaName) app scope)
                 | Some schema \<Rightarrow>
                     (case writeObject n api schema
                             (app\<lparr>seenSchemaRefs := insert schemaName (seenSchemaRefs app)\<rparr>) scope of
                        Some (Returned app' scope') \<Rightarrow>
                          Some (Returned
                                  (app'\<lparr>seenSchemaRefs := seenSchemaRefs app' - {schemaName}\<rparr>) scope')
                      | r \<Rightarrow> r))))"
| "writeProperties 0 api record app scope = None"
| "writeProperties (Suc n) api record app scope =
     forEachEntry (orderedEntries record)
       (\<lambda>parameter name app scope.
          after
            (if s_type parameter = Some (str ''object'')
             then writeObject n api parameter app
                    (beginNewLine (formatPropertyName name @ str '': '') scope)
             else if truthy (s_ref parameter)
             then writeSchemaRef n api (tpl (s_ref parameter)) app
                    (beginNewLine (formatPropertyName name @ str '': '') scope)
             else writePropertyValue n api parameter app
                    (beginNewLine (formatPropertyName name @ str '': '') scope))
            (write_chunk (str '','')))
       app scope"
  by pat_completeness auto
termination
  by (relation "measure (\<lambda>x. case x of
          Inl (Inl (n, _)) \<Rightarrow> n
        | Inl (Inr (n, _)) \<Rightarrow> n
        | Inr (Inl (n, _)) \<Rightarrow> n
        | Inr (Inr (Inl (n, _))) \<Rightarrow> n
        | Inr (Inr (Inr (n, _))) \<Rightarrow> n)") auto

lemma forEachEntry_cong [fundef_cong]:
  "r = r' \<Longrightarrow> app = app' \<Longrightarrow> scope = scope'
   \<Longrightarrow> (\<And>v k a s. (k, v) \<in> set r' \<Longrightarrow> f v k a s = g v k a s)
   \<Longrightarrow> forEachEntry r f app scope = forEachEntry r' g app' scope'"
  by (induction r' arbitrary: r app app' scope scope')
     (auto split: option.splits outcome.splits)

section \<open>The usage stub\<close>

text \<open>The body of the loop of \<open>writeResourceTests\<close> over the methods, up to \<open>scope.write(`);`)\<close>.\<close>

definition writeMethodTest ::
  "nat \<Rightarrow> RestDescription \<Rightarrow> jstring \<Rightarrow> jstring \<Rightarrow> jstring \<Rightarrow> RestMethod
   \<Rightarrow> App \<Rightarrow> writer \<Rightarrow> outcome option" where
  "writeMethodTest n api ancestors resourceName methodName method app scope =
     (let scope1 = beginLine (str ''await '' @ ancestors @ str ''.'' @ resourceName @ str ''.''
                                @ methodName @ str ''('')
                     (comment (m_description method) False (endLine [] scope))
      in case (case m_parameters method of
                 Some params \<Rightarrow>
                   after (writeProperties n api params app (scope_begin (str ''{'') scope1))
                     (scope_end (str ''}''))
               | None \<Rightarrow> Some (Returned app scope1)) of
           Some (Returned app2 scope2) \<Rightarrow>
             (case (case m_request method of None \<Rightarrow> None | Some r \<Rightarrow> r) of
                Some ref \<Rightarrow>
                  after (writeSchemaRef n api ref app2 (write_chunk (str '', '') scope2))
                    (write_chunk (str '');''))
              | None \<Rightarrow> Some (Returned app2 (write_chunk (str '');'') scope2)))
         | r \<Rightarrow> r)"

lemma size_subresource_less: "(k, v) \<in> set (r_resources r) \<Longrightarrow> size v < size r"
  using size_entry_less [of k v "r_resources r"] by (cases r) auto

function writeResourceTests ::
  "nat \<Rightarrow> RestDescription \<Rightarrow> jstring \<Rightarrow> jstring \<Rightarrow> RestResource \<Rightarrow> App \<Rightarrow> writer
   \<Rightarrow> outcome option" where
  "writeResourceTests n api ancestors resourceName resource app scope =
     forEachEntry (r_methods resource)
       (\<lambda>method methodName app scope.
          case writeMethodTest n api ancestors resourceName methodName method app scope of
            Some (Returned app1 scope1) \<Rightarrow>
              forEachEntry (r_resources resource)
                (\<lambda>sub subResource app scope.
                   writeResourceTests n api (ancestors @ str ''.'' @ resourceName)
                     subResource sub app scope)
                app1 scope1
          | r \<Rightarrow> r)
       app scope"
  by pat_completeness auto
termination
  by (relation "measure (\<lambda>(n, api, ancestors, resourceName, resource, app, scope). size resource)")
     (auto dest: size_subresource_less)

declare writeResourceTests.simps [simp del]

text \<open>The block of \<open>writeTests\<close> under \<open>if (api.auth)\<close>. Reading \<open>api.auth.oauth2.scopes\<close> fails
  when \<open>oauth2\<close> is absent.\<close>

fun writeScopes :: "(jstring \<times> jstring option) list \<Rightarrow> writer \<Rightarrow> writer" where
  "writeScopes [] w = w"
| "writeScopes ((a, description) # rest) w =
     writeScopes rest (beginLine ([39] @ a @ [39] @ str '','') (comment description False (endLine [] w)))"

definition writeAuth :: "Auth \<Rightarrow> App \<Rightarrow> writer \<Rightarrow> outcome" where
  "writeAuth auth app w =
     (let w1 = scope_begin (str ''['')
                 (beginLine (str ''const scope = '')
                   (writeLine (str ''const client_id = '' @ [39] @ str ''<<PUT YOUR CLIENT ID HERE>>'' @ [39] @ str '';'')
                     (comment (Some (str ''declare client_id registered in Google Developers Console'')) False
                       (comment (Some (str ''don'' @ [39] @ str ''t forget to authenticate your client before sending any request to resources:'')) False w))))
      in case oauth2 auth of
           None \<Rightarrow> Threw TypeError app w1
         | Some oa \<Rightarrow>
             (let w2 = writeScopes (case scopes oa of None \<Rightarrow> [] | Some sc \<Rightarrow> sc) w1;
                  w3 = beginNewLine (str ''gapi.auth.authorize({ client_id, scope, immediate }, authResult => '')
                         (writeLine (str ''const immediate = true;'')
                           (endLine (str '';'') (scope_end (str '']'') w2)));
                  w4 = beginNewLine (str ''if (authResult && !authResult.error) '') (scope_begin (str ''{'') w3);
                  w5 = scope_end (str ''}'')
                         (beginLine (str ''run();'')
                           (comment (Some (str ''handle succesfull authorization'')) False
                             (endLine [] (scope_begin (str ''{'') w4))));
                  w6 = scope_end (str ''}'')
                         (comment (Some (str ''handle authorization error'')) True
                           (endLine [] (scope_begin (str ''{'') (write_chunk (str '' else '') w5))))
              in Returned app (endLine (str '');'') (scope_end (str ''}'') w6))))"

text \<open>\<open>writeTests\<close>: the text of the usage stub is the buffer of the writer it ends with.\<close>

definition writeTests ::
  "nat \<Rightarrow> App \<Rightarrow> jstring \<Rightarrow> RestDescription \<Rightarrow> bool \<Rightarrow> jstring \<Rightarrow> outcome option" where
  "writeTests n app destinationDirectory api actualVersion url =
     (let w1 = beginLine (str ''gapi.load('' @ [39] @ str ''client'' @ [39] @ str '', () => '')
                 (writeLine []
                   (write_chunk (str ''/* This is stub file for gapi.client.'' @ tpl (api_name api) @ str '' definition tests */'' @ [10] @ str ''/* IMPORTANT.'' @ [10] @ str ''* This file was automatically generated by https://github.com/declanvong/google-api-typings-generator. Please do not edit it manually.'' @ [10] @ str ''* In case of any problems please post issue to https://github.com/declanvong/google-api-typings-generator'' @ [10] @ str ''**/'')
                      \<lparr>buffer = [], indent = 0\<rparr>));
          w2 = beginLine (str ''gapi.client.load('' @ [39] @ tpl (api_name api) @ [39] @ str '', '' @ [39]
                          @ tpl (api_version api) @ [39] @ str '', () => '')
                 (comment (Some (str ''now we can use gapi.client'')) False
                   (endLine [] (scope_begin (str ''{'') w1)));
          w3 = endLine []
                 (comment (Some (str ''now we can use gapi.client.'' @ tpl (api_name api))) False
                   (endLine [] (scope_begin (str ''{'') w2)))
      in case (case api_auth api of None \<Rightarrow> Returned app w3 | Some auth \<Rightarrow> writeAuth auth app w3) of
           Threw e app' w' \<Rightarrow> Some (Threw e app' w')
         | Returned app4 w4 \<Rightarrow>
             (let w5 = beginLine (str ''async function run() '')
                         (endLine []
                           (endLine (str '');'')
                             (scope_end (str ''}'') (beginLine (str ''run();'') w4))))
              in after
                   (forEachEntry (api_resources api)
                      (\<lambda>resource resourceName app scope.
                         writeResourceTests n api (str ''gapi.client.'' @ tpl (api_name api))
                           resourceName resource app scope)
                      app4 (scope_begin (str ''{'') w5))
                   (\<lambda>w. endLine (str '');'') (scope_end (str ''}'') (scope_end (str ''}'') w)))))"

section \<open>The orchestration of one service\<close>

text \<open>\<open>toLocaleLowerCase\<close>, on the ASCII letters.\<close>

definition toLowerCase :: "jstring \<Rightarrow> jstring" where
  "toLowerCase s = map (\<lambda>c. if 65 \<le> c \<and> c \<le> 90 then c + 32 else c) s"

text \<open>
  What \<open>processService\<close> does to the fetched document before it generates: name and version
  in lower case, the root resources sorted, the scopes sorted, and the methods of each root
  resource sorted.
\<close>

definition sortDocument :: "RestDescription \<Rightarrow> error + RestDescription" where
  "sortDocument api =
     (case (api_name api, api_version api) of
        (Some name, Some version) \<Rightarrow>
          Inr (api\<lparr>api_name := Some (toLowerCase name),
                   api_version := Some (toLowerCase version),
                   api_resources :=
                     map (\<lambda>(k, resource). (k, RestResource (sortKeys (r_methods resource))
                                                 (r_resources resource)))
                       (sortKeys (api_resources api)),
                   api_auth :=
                     map_option (\<lambda>auth. auth\<lparr>oauth2 :=
                         map_option (\<lambda>oa. oa\<lparr>scopes := map_option sortKeys (scopes oa)\<rparr>) (oauth2 auth)\<rparr>)
                       (api_auth api)\<rparr>)
      | _ \<Rightarrow> Inl TypeError)"

text \<open>
  \<open>processService\<close> after the fetch: the declaration file, then the usage stub. The template
  files (readme, tsconfig, tslint) are not modelled. An error of \<open>processApi\<close> ends the call
  before the stub is written.
\<close>

definition processService ::
  "nat \<Rightarrow> App \<Rightarrow> jstring \<Rightarrow> RestDescription \<Rightarrow> bool \<Rightarrow> jstring
   \<Rightarrow> (error + jstring \<times> outcome) option" where
  "processService n app destinationDirectory fetched actualVersion url =
     (case sortDocument fetched of
        Inl e \<Rightarrow> Some (Inl e)
      | Inr api \<Rightarrow>
          (case processApi app destinationDirectory api actualVersion url of
             Inl e \<Rightarrow> Some (Inl e)
           | Inr declarations \<Rightarrow>
               map_option (\<lambda>tests. Inr (declarations, tests))
                 (writeTests n app destinationDirectory api actualVersion url)))"

section \<open>Callbacks only append\<close>

text \<open>
  \<open>ext w w'\<close>: the writer \<open>w'\<close> holds the text of \<open>w\<close> and more, at the same indent level.
  A callback appends when every run that returns leaves the writer so. Every callback that
  \<open>getType\<close> returns appends, and so does every operation of the emitter.
\<close>

definition ext :: "writer \<Rightarrow> writer \<Rightarrow> bool" where
  "ext w w' \<longleftrightarrow> indent w' = indent w \<and> (\<exists>t. buffer w' = buffer w @ t)"

definition appends :: "(writer \<Rightarrow> error + writer) \<Rightarrow> bool" where
  "appends f \<longleftrightarrow> (\<forall>w w'. f w = Inr w' \<longrightarrow> ext w w')"

section \<open>Example documents\<close>

text \<open>Builders for the documents at which the theorems below evaluate the generator.\<close>

definition typed :: "jstring \<Rightarrow> JsonSchema" where
  "typed t = JsonSchema None (Some t) None None None None None None None"

definition reference :: "jstring \<Rightarrow> JsonSchema" where
  "reference name = JsonSchema None None (Some name) None None None None None None"

definition object :: "(jstring \<times> JsonSchema) list \<Rightarrow> JsonSchema" where
  "object props = JsonSchema None (Some (str ''object'')) None None None None None (Some props) None"

definition document :: "(jstring \<times> JsonSchema) list \<Rightarrow> (jstring \<times> RestResource) list \<Rightarrow> RestDescription" where
  "document schemas resources =
     \<lparr>api_id = None, api_name = Some (str ''demo''), api_version = Some (str ''v1''),
      api_title = None, api_ownerName = None, api_documentationLink = None,
      api_schemas = Some schemas, api_parameters = None, api_methods = [],
      api_resources = resources, api_auth = None\<rparr>"

definition call :: "jstring \<Rightarrow> RestMethod" where
  "call mid = \<lparr>m_id = Some mid, m_description = None, m_parameters = None, m_request = None,
               m_response = None\<rparr>"

definition nestedDoc :: RestDescription where "nestedDoc = document []
     [(str ''r'', RestResource [(str ''x'', call (str ''demo.r.x''))]
        [(str ''zeta'', RestResource [(str ''m'', call (str ''demo.r.zeta.m''))] []),
         (str ''alpha'', RestResource [(str ''m'', call (str ''demo.r.alpha.m''))] [])])]"

definition loopDoc :: RestDescription where
  "loopDoc = document [(str ''A'', object [(str ''extra'', typed (str ''object'')),
                                           (str ''self'', reference (str ''A''))])] []"

definition selfDoc :: RestDescription where
  "selfDoc = document [(str ''A'', object [(str ''self'', reference (str ''A''))])] []"

definition leakDoc :: RestDescription where
  "leakDoc = document [(str ''A'', object [(str ''x'', typed (str ''weird''))])] []"

section \<open>Property names\<close>

lemma indexOf_ge_iff: "0 \<le> indexOf s c \<longleftrightarrow> c \<in> set s"
  by (induction s) (auto simp: Let_def)

text \<open>
  C10. \<open>formatPropertyName\<close> wraps a name in double quotes exactly when it contains one of the
  characters \<open>.\<close> (46), \<open>-\<close> (45) or \<open>@\<close> (64), and returns every other name as it is; and
  \<open>property\<close>, through which every property of the declaration file is written, puts that
  formatted name at the start of the line, after the indentation.
\<close>

theorem formatPropertyName_quotes:
  "formatPropertyName name =
     (if 46 \<in> set name \<or> 45 \<in> set name \<or> 64 \<in> set name then [34] @ name @ [34] else name)
   \<and> (formatPropertyName name = [34] @ name @ [34]
        \<longleftrightarrow> 46 \<in> set name \<or> 45 \<in> set name \<or> 64 \<in> set name)
   \<and> property name (Str ty) required w =
       Inr (w\<lparr>buffer := buffer w @ tabs (indent w) @ formatPropertyName name
                          @ optionalMark required @ str '': '' @ ty @ str '';'' @ newLine\<rparr>)
   \<and> property name (Fn f) required w =
       (case f (w\<lparr>buffer := buffer w @ tabs (indent w) @ formatPropertyName name
                               @ optionalMark required @ str '': ''\<rparr>) of
          Inl e \<Rightarrow> Inl e
        | Inr w' \<Rightarrow> Inr (w'\<lparr>buffer := buffer w' @ str '';'' @ newLine\<rparr>))"
proof -
  have "formatPropertyName name =
     (if 46 \<in> set name \<or> 45 \<in> set name \<or> 64 \<in> set name then [34] @ name @ [34] else name)"
    by (simp add: formatPropertyName_def indexOf_ge_iff)
  moreover have "property name (Str ty) required w =
       Inr (w\<lparr>buffer := buffer w @ tabs (indent w) @ formatPropertyName name
                          @ optionalMark required @ str '': '' @ ty @ str '';'' @ newLine\<rparr>)"
    by (simp add: writeLine_def startIndentedLine_def write_chunk_def)
  moreover have "property name (Fn f) required w =
       (case f (w\<lparr>buffer := buffer w @ tabs (indent w) @ formatPropertyName name
                               @ optionalMark required @ str '': ''\<rparr>) of
          Inl e \<Rightarrow> Inl e
        | Inr w' \<Rightarrow> Inr (w'\<lparr>buffer := buffer w' @ str '';'' @ newLine\<rparr>))"
    by (simp add: startIndentedLine_def write_chunk_def endLine_def split: sum.split)
  ultimately show ?thesis by simp
qed

theorem formatPropertyName_quotes_witness:
  "formatPropertyName (str ''a-b'') = [34] @ str ''a-b'' @ [34]
   \<and> formatPropertyName (str ''kind'') = str ''kind''
   \<and> property (str ''x.y'') (Str (str ''string'')) True \<lparr>buffer = [], indent = 1\<rparr>
       = Inr \<lparr>buffer = str ''    '' @ [34] @ str ''x.y'' @ [34] @ str '': string;'' @ [10], indent = 1\<rparr>"
proof -
  have "formatPropertyName (str ''a-b'') = [34] @ str ''a-b'' @ [34]"
    using formatPropertyName_quotes [of "str ''a-b''", THEN conjunct1] by simp
  moreover have "formatPropertyName (str ''kind'') = str ''kind''"
    using formatPropertyName_quotes [of "str ''kind''", THEN conjunct1] by simp
  moreover have "formatPropertyName (str ''x.y'') = [34] @ str ''x.y'' @ [34]"
    using formatPropertyName_quotes [of "str ''x.y''", THEN conjunct1] by simp
  ultimately show ?thesis
    using formatPropertyName_quotes [of "str ''x.y''" "str ''string''" True
        "\<lparr>buffer = [], indent = 1\<rparr>", THEN conjunct2, THEN conjunct2, THEN conjunct1]
    by (simp add: tabs_def tabString_def optionalMark_def newLine_def)
qed

section \<open>References in the type renderer\<close>

text \<open>
  C6. A node without a type and with a reference \<open>name\<close> that the schema table resolves
  renders as the text \<open>any\<close> when the referenced schema has no properties (none, or an empty
  mapping) and no additionalProperties, whatever the name; otherwise it renders as the bare
  name, a string, and nothing of the referenced schema is written.
\<close>

theorem getType_reference:
  assumes "\<not> truthy (s_type node)" and "s_ref node = Some name" and "name \<noteq> []"
    and "map_of table name = Some referenced"
  shows "getType node (Some table) =
           Inr (Str (if (s_properties referenced = None \<or> s_properties referenced = Some [])
                        \<and> s_additionalProperties referenced = None
                     then str ''any'' else name))"
proof (cases node)
  case (JsonSchema sid ty rf descr req rep items props addl)
  with assms have ty: "ty = None \<or> ty = Some []" and rf: "rf = Some name"
    by (cases ty; simp)+
  have e: "isEmptySchema referenced \<longleftrightarrow>
      (s_properties referenced = None \<or> s_properties referenced = Some [])
      \<and> s_additionalProperties referenced = None"
    by (auto simp: isEmptySchema_def split: option.splits)
  from ty show ?thesis
    using assms(3,4) by (auto simp: JsonSchema rf e)
qed

theorem getType_reference_witness:
  "getType (JsonSchema None None (Some (str ''Empty'')) None None None None None None)
     (Some [(str ''Empty'', JsonSchema (Some (str ''Empty'')) (Some (str ''object''))
                              None None None None None None None),
            (str ''Full'', JsonSchema (Some (str ''Full'')) (Some (str ''object''))
                             None None None None None
                             (Some [(str ''a'', JsonSchema None (Some (str ''string''))
                                                  None None None None None None None)]) None)])
     = Inr (Str (str ''any''))
   \<and> getType (JsonSchema None None (Some (str ''Full'')) None None None None None None)
     (Some [(str ''Empty'', JsonSchema (Some (str ''Empty'')) (Some (str ''object''))
                              None None None None None None None),
            (str ''Full'', JsonSchema (Some (str ''Full'')) (Some (str ''object''))
                             None None None None None
                             (Some [(str ''a'', JsonSchema None (Some (str ''string''))
                                                  None None None None None None None)]) None)])
     = Inr (Str (str ''Full''))"
proof -
  let ?e = "JsonSchema (Some (str ''Empty'')) (Some (str ''object'')) None None None None None None None"
  let ?f = "JsonSchema (Some (str ''Full'')) (Some (str ''object'')) None None None None None
              (Some [(str ''a'', JsonSchema None (Some (str ''string''))
                                   None None None None None None None)]) None"
  let ?t = "[(str ''Empty'', ?e), (str ''Full'', ?f)]"
  have "getType (JsonSchema None None (Some (str ''Empty'')) None None None None None None) (Some ?t)
        = Inr (Str (str ''any''))"
    using getType_reference [of "JsonSchema None None (Some (str ''Empty'')) None None None None None None"
        "str ''Empty''" ?t ?e]
    by simp
  moreover
  have "getType (JsonSchema None None (Some (str ''Full'')) None None None None None None) (Some ?t)
        = Inr (Str (str ''Full''))"
    using getType_reference [of "JsonSchema None None (Some (str ''Full'')) None None None None None None"
        "str ''Full''" ?t ?f]
    by simp
  ultimately show ?thesis by simp
qed

section \<open>Callbacks only append: proofs\<close>

lemma ext_refl [simp]: "ext w w"
  by (simp add: ext_def)

lemma ext_trans: "ext a b \<Longrightarrow> ext b c \<Longrightarrow> ext a c"
  by (auto simp: ext_def)

lemma appendsI: "(\<And>w w'. f w = Inr w' \<Longrightarrow> ext w w') \<Longrightarrow> appends f"
  by (simp add: appends_def)

lemma appendsD: "appends f \<Longrightarrow> f w = Inr w' \<Longrightarrow> ext w w'"
  by (simp add: appends_def)

lemma ext_write_chunk: "ext w x \<Longrightarrow> ext w (write_chunk t x)"
  by (auto simp: ext_def write_chunk_def)

lemma ext_startIndentedLine: "ext w x \<Longrightarrow> ext w (startIndentedLine t x)"
  by (auto simp: ext_def startIndentedLine_def write_chunk_def)

lemma ext_writeLine: "ext w x \<Longrightarrow> ext w (writeLine t x)"
  by (simp add: writeLine_def ext_startIndentedLine)

lemma ext_beginLine: "ext w x \<Longrightarrow> ext w (beginLine t x)"
  by (simp add: beginLine_def ext_startIndentedLine)

lemma ext_endLine: "ext w x \<Longrightarrow> ext w (endLine t x)"
  by (simp add: endLine_def ext_write_chunk)

lemma ext_beginNewLine: "ext w x \<Longrightarrow> ext w (beginNewLine t x)"
  by (simp add: beginNewLine_def ext_startIndentedLine ext_write_chunk)

lemma ext_commentBody: "ext w x \<Longrightarrow> ext w (commentBody b ls x)"
  by (induction ls arbitrary: x) (simp_all add: Let_def ext_beginLine ext_writeLine)

lemma ext_comment: "ext w x \<Longrightarrow> ext w (comment t b x)"
  by (simp add: comment_def ext_commentBody ext_beginLine ext_writeLine
        del: commentBody.simps split: list.split)

lemma ext_commentIf: "ext w x \<Longrightarrow> ext w (commentIf d x)"
  by (simp add: commentIf_def ext_comment)

lemmas ext_pure = ext_write_chunk ext_startIndentedLine ext_writeLine ext_beginLine ext_endLine
  ext_beginNewLine ext_commentBody ext_comment ext_commentIf

lemma ext_inc_dec: "ext (indentInc w) w' \<Longrightarrow> ext w (indentDec w')"
  by (auto simp: ext_def indentInc_def indentDec_def)

lemma ext_inc: "ext (indentInc x) w' \<Longrightarrow> ext w x \<Longrightarrow> ext w (indentDec w')"
  by (auto simp: ext_def indentInc_def indentDec_def)



lemma appends_anonymysType: "appends context \<Longrightarrow> appends (anonymysType context)"
proof (rule appendsI)
  fix w w' assume c: "appends context" and b: "anonymysType context w = Inr w'"
  then obtain w1 where w1: "context (indentInc (endLine (str ''{'') w)) = Inr w1"
    and w': "w' = startIndentedLine (str ''}'') (indentDec w1)"
    by (auto simp: anonymysType_def split: sum.splits)
  from appendsD [OF c w1] have "ext w (indentDec w1)"
    by (rule ext_inc) (simp add: ext_endLine)
  then show "ext w w'" by (simp add: w' ext_startIndentedLine)
qed

lemma appends_bind:
  "appends f \<Longrightarrow> appends g \<Longrightarrow> appends (\<lambda>w. case f w of Inl e \<Rightarrow> Inl e | Inr w1 \<Rightarrow> g w1)"
  by (rule appendsI) (auto split: sum.splits dest!: appendsD intro: ext_trans)

lemma appends_pure: "(\<And>w. ext w (g w)) \<Longrightarrow> appends (\<lambda>w. Inr (g w))"
  by (rule appendsI) auto

lemma appends_after: "appends f \<Longrightarrow> (\<And>w. ext w (g w)) \<Longrightarrow> appends (\<lambda>w. f (g w))"
  by (rule appendsI) (auto dest!: appendsD intro: ext_trans)

lemma appends_iterate:
  "(\<And>k v i. (k, v) \<in> set es \<Longrightarrow> appends (f v k i)) \<Longrightarrow> appends (iterate f es i)"
proof (induction es arbitrary: i)
  case Nil
  show ?case by (rule appendsI) simp
next
  case (Cons e es)
  obtain k v where e: "e = (k, v)" by (cases e)
  have 1: "appends (f v k i)" using Cons.prems e by simp
  have 2: "appends (iterate f es (i + 1))" using Cons.IH Cons.prems by simp
  show ?case
    using appends_bind [OF 1 2] by (simp add: e appends_def)
qed

lemma appends_forEachOrdered:
  "(\<And>r k v i. record = Some r \<Longrightarrow> (k, v) \<in> set r \<Longrightarrow> appends (f v k i))
   \<Longrightarrow> appends (forEachOrdered record f)"
  by (cases "record")
     (auto simp: forEachOrdered_def [abs_def] appends_def [of "\<lambda>w. Inr w"]
        intro!: appends_iterate dest: orderedEntries_subset)

lemma appends_property: "appends (writeR t) \<Longrightarrow> appends (property name t required)"
proof (cases t)
  case (Str s)
  show ?thesis by (rule appendsI) (auto simp: Str ext_writeLine)
next
  case (Fn f)
  assume "appends (writeR t)"
  then have f: "appends f" by (simp add: Fn writeR_def [abs_def])
  show ?thesis
  proof (rule appendsI)
    fix w w' assume "property name t required w = Inr w'"
    then obtain w1 where
      w1: "f (startIndentedLine (formatPropertyName name @ optionalMark required @ str '': '') w)
           = Inr w1" and w': "w' = endLine (str '';'') w1"
      by (auto simp: Fn split: sum.splits)
    have "ext w w1"
      by (rule ext_trans [OF _ appendsD [OF f w1]]) (simp add: ext_startIndentedLine)
    then show "ext w w'" by (simp add: w' ext_endLine)
  qed
qed

lemma appends_writeR_Str [simp]: "appends (writeR (Str s))"
  by (rule appendsI) (simp add: writeR_def ext_write_chunk)

lemma writeR_Fn [simp]: "writeR (Fn f) = f"
  by (rule ext) (simp add: writeR_def)

lemma getType_object:
  "ty = Some (str ''object'') \<Longrightarrow> props = Some ps \<Longrightarrow>
   getType (JsonSchema sid ty rf descr req rep items props addl) schemas =
     Inr (Fn (anonymysType (\<lambda>writer.
       case forEachOrdered (Some ps) (writeProperty schemas) writer of
         Inl e \<Rightarrow> Inl e
       | Inr w1 \<Rightarrow> writeIndexSignature schemas addl w1)))"
  by (simp add: writeProperty_def [abs_def] writeIndexSignature_def [abs_def] cong: sum.case_cong)

lemma appends_writeProperty_if:
  assumes "\<And>r. getType data schemas = Inr r \<Longrightarrow> appends (writeR r)"
  shows "appends (writeProperty schemas data key i)"
proof (rule appendsI)
  fix w w' assume "writeProperty schemas data key i w = Inr w'"
  then obtain t where t: "getType data schemas = Inr t"
    and p: "property key t (s_required data = Some True) (commentIf (s_description data) w) = Inr w'"
    by (auto simp: writeProperty_def split: sum.splits)
  from appendsD [OF appends_property [OF assms [OF t]] p]
  show "ext w w'" by (rule ext_trans [rotated]) (simp add: ext_commentIf)
qed

lemma appends_writeIndexSignature_if:
  assumes "\<And>ap r. addl = Some ap \<Longrightarrow> getType ap schemas = Inr r \<Longrightarrow> appends (writeR r)"
  shows "appends (writeIndexSignature schemas addl)"
proof (rule appendsI)
  fix w w' assume a: "writeIndexSignature schemas addl w = Inr w'"
  show "ext w w'"
  proof (cases addl)
    case None
    with a show ?thesis by (simp add: writeIndexSignature_def)
  next
    case (Some ap)
    with a obtain t where t: "getType ap schemas = Inr t"
      and p: "property (str ''[key: string]'') t True w = Inr w'"
      by (auto simp: writeIndexSignature_def split: sum.splits)
    from appendsD [OF appends_property [OF assms [OF Some t]] p] show ?thesis .
  qed
qed

lemma getType_appends: "getType t schemas = Inr r \<Longrightarrow> appends (writeR r)"
proof (induction t arbitrary: r)
  case (JsonSchema sid ty rf descr req rep items props addl)
  have items: "\<And>its r. items = Some its \<Longrightarrow> getType its schemas = Inr r \<Longrightarrow> appends (writeR r)"
    using JsonSchema.IH(1) by auto
  have props: "\<And>ps k v r. props = Some ps \<Longrightarrow> (k, v) \<in> set ps \<Longrightarrow> getType v schemas = Inr r
      \<Longrightarrow> appends (writeR r)"
    using JsonSchema.IH(2) by fastforce
  have addl: "\<And>ap r. addl = Some ap \<Longrightarrow> getType ap schemas = Inr r \<Longrightarrow> appends (writeR r)"
    using JsonSchema.IH(3) by auto
  note g = JsonSchema.prems
  consider (arr) "ty = Some (str ''array'')"
    | (objp) ps where "ty = Some (str ''object'')" "props = Some ps"
    | (obja) ap where "ty = Some (str ''object'')" "props = None" "addl = Some ap"
    | (other) "ty \<noteq> Some (str ''array'')" "ty \<noteq> Some (str ''object'') \<or> (props = None \<and> addl = None)"
    by (cases props; cases addl; auto)
  then show ?case
  proof cases
    case arr
    with g obtain its c where its: "items = Some its" and c: "getType its schemas = Inr c"
      by (auto split: option.splits sum.splits)
    show ?thesis
    proof (cases c)
      case (Str child)
      with g arr its c show ?thesis by auto
    next
      case (Fn child)
      from items [OF its c] have ch: "appends child" by (simp add: Fn)
      from g arr its c Fn
      have r: "r = Fn (\<lambda>writer. case child (write_chunk (str ''Array<'') writer) of
                      Inl e \<Rightarrow> Inl e | Inr w1 \<Rightarrow> Inr (write_chunk (str ''>'') w1))"
        by auto
      have "appends (\<lambda>writer. case child (write_chunk (str ''Array<'') writer) of
                      Inl e \<Rightarrow> Inl e | Inr w1 \<Rightarrow> Inr (write_chunk (str ''>'') w1))"
        by (rule appends_bind [OF appends_after [OF ch] appends_pure])
           (simp_all add: ext_write_chunk)
      then show ?thesis by (simp add: r)
    qed
  next
    case objp
    have "appends (anonymysType (\<lambda>writer.
       case forEachOrdered (Some ps) (writeProperty schemas) writer of
         Inl e \<Rightarrow> Inl e
       | Inr w1 \<Rightarrow> writeIndexSignature schemas addl w1))"
      by (intro appends_anonymysType appends_bind appends_forEachOrdered
            appends_writeProperty_if appends_writeIndexSignature_if)
         (auto intro: props [OF objp(2)] addl)
    moreover from g have "r = Fn (anonymysType (\<lambda>writer.
       case forEachOrdered (Some ps) (writeProperty schemas) writer of
         Inl e \<Rightarrow> Inl e
       | Inr w1 \<Rightarrow> writeIndexSignature schemas addl w1))"
      unfolding getType_object [OF objp] by simp
    ultimately show ?thesis by simp
  next
    case obja
    from g obja
    have r: "r = Fn (\<lambda>writer. case getType ap schemas of
                 Inl e \<Rightarrow> Inl e
               | Inr child \<Rightarrow>
                   (case writeR child (write_chunk (str ''Record<string, '') writer) of
                      Inl e \<Rightarrow> Inl e
                    | Inr w1 \<Rightarrow> Inr (write_chunk (str ''>'') w1)))"
      by auto
    have "appends (\<lambda>writer. case getType ap schemas of
                 Inl e \<Rightarrow> Inl e
               | Inr child \<Rightarrow>
                   (case writeR child (write_chunk (str ''Record<string, '') writer) of
                      Inl e \<Rightarrow> Inl e
                    | Inr w1 \<Rightarrow> Inr (write_chunk (str ''>'') w1)))"
    proof (cases "getType ap schemas")
      case (Inl e)
      then show ?thesis by (simp add: appends_def)
    next
      case (Inr child)
      from addl [OF obja(3) Inr] have ch: "appends (writeR child)" .
      show ?thesis
        unfolding Inr sum.case
        by (rule appends_bind [OF appends_after [OF ch] appends_pure])
           (simp_all add: ext_write_chunk)
    qed
    then show ?thesis by (simp add: r)
  next
    case other
    with g show ?thesis
      by (auto simp: Let_def split: if_splits option.splits)
  qed
qed


lemma appends_writeIndexSignature: "appends (writeIndexSignature schemas addl)"
  by (rule appends_writeIndexSignature_if) (rule getType_appends)

section \<open>Optional properties\<close>

text \<open>
  C1, as the claim states it, fails: a property whose schema has no \<open>required\<close> field is
  written with the \<open>?\<close>, because all three call sites pass \<open>data.required || false\<close> and the
  default \<open>required = true\<close> of \<open>property\<close> never applies.
\<close>

theorem required_absent_counterexample:
  "writeProperty None
     (JsonSchema None (Some (str ''string'')) None None None None None None None)
     (str ''name'') 0 \<lparr>buffer = [], indent = 0\<rparr>
   = Inr \<lparr>buffer = str ''name?: string;'' @ [10], indent = 0\<rparr>"
  by (simp add: writeProperty_def typesMap_def commentIf_def writeLine_def startIndentedLine_def
        write_chunk_def tabs_def formatPropertyName_def optionalMark_def newLine_def)

text \<open>
  C1, amended. The callback \<open>writeProperty\<close> is what a schema interface (\<open>writeSchema\<close>), an
  anonymous structural type (\<open>getType_object\<close>) and a request parameter (\<open>writeMethod\<close>) run
  for each property. After the optional comment it starts a line with the formatted name,
  then nothing when \<open>required\<close> is true and \<open>?\<close> when \<open>required\<close> is false or absent, then the
  colon and the type.
\<close>

theorem property_optional_mark:
  assumes "writeProperty schemas data key i w = Inr w'"
  shows "\<exists>rest. buffer w' =
           buffer (commentIf (s_description data) w) @ tabs (indent w)
           @ formatPropertyName key
           @ (if s_required data = Some True then [] else str ''?'')
           @ str '': '' @ rest"
proof -
  let ?w0 = "commentIf (s_description data) w"
  let ?head = "formatPropertyName key @ optionalMark (s_required data = Some True) @ str '': ''"
  from assms obtain t where t: "getType data schemas = Inr t"
    and p: "property key t (s_required data = Some True) ?w0 = Inr w'"
    by (auto simp: writeProperty_def split: sum.splits)
  have i: "indent ?w0 = indent w"
    using ext_commentIf [OF ext_refl, of w "s_description data"] by (simp add: ext_def)
  have "\<exists>rest. buffer w' = buffer ?w0 @ tabs (indent w) @ ?head @ rest"
  proof (cases t)
    case (Str ty)
    with p show ?thesis
      by (auto simp: writeLine_def startIndentedLine_def write_chunk_def i)
  next
    case (Fn f)
    with p obtain w1 where w1: "f (startIndentedLine ?head ?w0) = Inr w1"
      and w': "w' = endLine (str '';'') w1"
      by (auto split: sum.splits)
    from getType_appends [OF t] have "appends f" by (simp add: Fn)
    from appendsD [OF this w1] obtain x where
      "buffer w1 = buffer (startIndentedLine ?head ?w0) @ x"
      by (auto simp: ext_def)
    then show ?thesis
      by (simp add: w' endLine_def write_chunk_def startIndentedLine_def i)
  qed
  then show ?thesis by (simp add: optionalMark_def)
qed

theorem property_optional_mark_witness:
  "writeProperty None
     (JsonSchema None (Some (str ''string'')) None None (Some True) None None None None)
     (str ''a'') 0 \<lparr>buffer = [], indent = 0\<rparr>
     = Inr \<lparr>buffer = str ''a: string;'' @ [10], indent = 0\<rparr>
   \<and> (\<exists>rest. str ''a: string;'' @ [10] = str ''a'' @ str '': '' @ rest)
   \<and> writeProperty None
     (JsonSchema None (Some (str ''string'')) None None (Some False) None None None None)
     (str ''b'') 0 \<lparr>buffer = [], indent = 0\<rparr>
     = Inr \<lparr>buffer = str ''b?: string;'' @ [10], indent = 0\<rparr>
   \<and> (\<exists>rest. str ''b?: string;'' @ [10] = str ''b'' @ str ''?'' @ str '': '' @ rest)"
proof -
  let ?w = "\<lparr>buffer = [], indent = 0\<rparr>"
  let ?s = "\<lambda>req. JsonSchema None (Some (str ''string'')) None None req None None None None"
  have e: "\<And>req k. writeProperty None (?s req) k 0 ?w
      = Inr \<lparr>buffer = formatPropertyName k @ optionalMark (req = Some True) @ str '': string;'' @ [10],
             indent = 0\<rparr>"
    by (simp add: writeProperty_def typesMap_def commentIf_def writeLine_def startIndentedLine_def
        write_chunk_def tabs_def newLine_def)
  show ?thesis
    using property_optional_mark [OF e [of "Some True" "str ''a''"]]
      property_optional_mark [OF e [of "Some False" "str ''b''"]]
      e [of "Some True" "str ''a''"] e [of "Some False" "str ''b''"]
    by (simp add: formatPropertyName_def optionalMark_def commentIf_def tabs_def)
qed

section \<open>Evaluating the generator\<close>

text \<open>
  The simplifier evaluates a loop from the outside: with these rules it leaves a callback
  alone until the loop applies it to an entry.
\<close>

lemma forEachEntry_weak_cong:
  "r = r' \<Longrightarrow> app = app' \<Longrightarrow> scope = scope'
   \<Longrightarrow> forEachEntry r f app scope = forEachEntry r' f app' scope'"
  by simp

lemma iterate_weak_cong:
  "es = es' \<Longrightarrow> i = i' \<Longrightarrow> s = s' \<Longrightarrow> iterate f es i s = iterate f es' i' s'"
  by simp

lemma forEachOrdered_weak_cong:
  "r = r' \<Longrightarrow> s = s' \<Longrightarrow> forEachOrdered r f s = forEachOrdered r' f s'"
  by simp

lemmas writer_defs = after_def scope_begin_def scope_end_def beginNewLine_def beginLine_def
  endLine_def writeLine_def startIndentedLine_def write_chunk_def indentInc_def indentDec_def
  tabs_def tabString_def newLine_def

lemmas order_defs = orderedEntries_def keysOrdered_def sortStrings_def compareKeys_def

lemmas comment_defs = comment_def commentLines_def trim_def isWhiteSpace_def wrapLine_def maxLine_def
      escapeStars_def replaceAll_def replaceIrregular_def irregylarSpaces_def isLineBreak_def
      commentIf_def formatComment_def

section \<open>Determinism of the declaration file\<close>



section \<open>The usage stub and the resource tree\<close>

text \<open>
  C2 does not hold of the code. \<open>writeResourceTests\<close> runs its loop over the sub-resources
  inside the body of its loop over the methods. A resource without methods therefore writes
  nothing, whatever its sub-resources declare; and below a resource with two methods the
  invocations of a sub-resource are written twice.
\<close>

theorem subresources_inside_method_loop:
  "writeResourceTests n api ancestors resourceName (RestResource [] subs) app scope
     = Some (Returned app scope)
   \<and> writeResourceTests 0 (document [] []) (str ''gapi.client.demo'') (str ''r'')
       (RestResource [(str ''a'', call (str ''demo.r.a'')), (str ''b'', call (str ''demo.r.b''))]
          [(str ''s'', RestResource [(str ''m'', call (str ''demo.r.s.m''))] [])])
       \<lparr>seenSchemaRefs = {}\<rparr> \<lparr>buffer = [], indent = 0\<rparr>
     = Some (Returned \<lparr>seenSchemaRefs = {}\<rparr>
         \<lparr>buffer = [10] @ str ''await gapi.client.demo.r.a();'' @ [10] @ str ''await gapi.client.demo.r.s.m();'' @ [10] @ str ''await gapi.client.demo.r.b();'' @ [10] @ str ''await gapi.client.demo.r.s.m();'', indent = 0\<rparr>)"
proof
  show "writeResourceTests n api ancestors resourceName (RestResource [] subs) app scope
     = Some (Returned app scope)"
    by (subst writeResourceTests.simps) simp
  show "writeResourceTests 0 (document [] []) (str ''gapi.client.demo'') (str ''r'')
       (RestResource [(str ''a'', call (str ''demo.r.a'')), (str ''b'', call (str ''demo.r.b''))]
          [(str ''s'', RestResource [(str ''m'', call (str ''demo.r.s.m''))] [])])
       \<lparr>seenSchemaRefs = {}\<rparr> \<lparr>buffer = [], indent = 0\<rparr>
     = Some (Returned \<lparr>seenSchemaRefs = {}\<rparr>
         \<lparr>buffer = [10] @ str ''await gapi.client.demo.r.a();'' @ [10] @ str ''await gapi.client.demo.r.s.m();'' @ [10] @ str ''await gapi.client.demo.r.b();'' @ [10] @ str ''await gapi.client.demo.r.s.m();'', indent = 0\<rparr>)"
    by (simp add: writeResourceTests.simps writeMethodTest_def call_def comment_def writer_defs
        cong: forEachEntry_weak_cong)
qed

section \<open>The cycle guard\<close>

text \<open>A call that returns leaves the guard set as it found it.\<close>

lemma after_Returned:
  "after r g = Some (Returned app' s') \<longleftrightarrow> (\<exists>s. r = Some (Returned app' s) \<and> s' = g s)"
  by (auto simp: after_def split: option.splits outcome.splits)

lemma after_None [simp]: "after None g = None"
  by (simp add: after_def)

lemma forEachEntry_seen:
  assumes "\<And>v k a s a' s'. f v k a s = Some (Returned a' s') \<Longrightarrow> seenSchemaRefs a' = seenSchemaRefs a"
    and "forEachEntry r f app scope = Some (Returned app' scope')"
  shows "seenSchemaRefs app' = seenSchemaRefs app"
  using assms(2)
proof (induction r arbitrary: app scope)
  case Nil
  then show ?case by simp
next
  case (Cons e r)
  obtain k v where e: "e = (k, v)" by (cases e)
  from Cons.prems obtain a1 s1 where 1: "f v k app scope = Some (Returned a1 s1)"
    and 2: "forEachEntry r f a1 s1 = Some (Returned app' scope')"
    by (auto simp: e split: option.splits outcome.splits)
  from Cons.IH [OF 2] assms(1) [OF 1] show ?case by simp
qed

lemma seen_restored_all:
  "(\<forall>api p app s app' s'. writePropertyValue n api p app s = Some (Returned app' s')
      \<longrightarrow> seenSchemaRefs app' = seenSchemaRefs app)
   \<and> (\<forall>api p app s app' s'. writeArray n api p app s = Some (Returned app' s')
      \<longrightarrow> seenSchemaRefs app' = seenSchemaRefs app)
   \<and> (\<forall>api p app s app' s'. writeObject n api p app s = Some (Returned app' s')
      \<longrightarrow> seenSchemaRefs app' = seenSchemaRefs app)
   \<and> (\<forall>api name app s app' s'. writeSchemaRef n api name app s = Some (Returned app' s')
      \<longrightarrow> seenSchemaRefs app' = seenSchemaRefs app)
   \<and> (\<forall>api r app s app' s'. writeProperties n api r app s = Some (Returned app' s')
      \<longrightarrow> seenSchemaRefs app' = seenSchemaRefs app)"
proof (induction n)
  case 0
  show ?case by simp
next
  case (Suc n)
  note ih = Suc.IH
  have pv: "\<And>api p app s app' s'. writePropertyValue n api p app s = Some (Returned app' s')
      \<Longrightarrow> seenSchemaRefs app' = seenSchemaRefs app"
    by (rule ih [THEN conjunct1, rule_format])
  have ar: "\<And>api p app s app' s'. writeArray n api p app s = Some (Returned app' s')
      \<Longrightarrow> seenSchemaRefs app' = seenSchemaRefs app"
    by (rule ih [THEN conjunct2, THEN conjunct1, rule_format])
  have ob: "\<And>api p app s app' s'. writeObject n api p app s = Some (Returned app' s')
      \<Longrightarrow> seenSchemaRefs app' = seenSchemaRefs app"
    by (rule ih [THEN conjunct2, THEN conjunct2, THEN conjunct1, rule_format])
  have sr: "\<And>api name app s app' s'. writeSchemaRef n api name app s = Some (Returned app' s')
      \<Longrightarrow> seenSchemaRefs app' = seenSchemaRefs app"
    by (rule ih [THEN conjunct2, THEN conjunct2, THEN conjunct2, THEN conjunct1, rule_format])
  have ps: "\<And>api r app s app' s'. writeProperties n api r app s = Some (Returned app' s')
      \<Longrightarrow> seenSchemaRefs app' = seenSchemaRefs app"
    by (rule ih [THEN conjunct2, THEN conjunct2, THEN conjunct2, THEN conjunct2, rule_format])
  have 1: "\<And>api p app s app' s'. writePropertyValue (Suc n) api p app s = Some (Returned app' s')
      \<Longrightarrow> seenSchemaRefs app' = seenSchemaRefs app"
    by (auto simp: Let_def split: if_splits option.splits dest: ar ob)
  have 2: "\<And>api p app s app' s'. writeArray (Suc n) api p app s = Some (Returned app' s')
      \<Longrightarrow> seenSchemaRefs app' = seenSchemaRefs app"
    by (auto simp: Let_def after_Returned split: if_splits dest: sr pv)
  have 3: "\<And>api p app s app' s'. writeObject (Suc n) api p app s = Some (Returned app' s')
      \<Longrightarrow> seenSchemaRefs app' = seenSchemaRefs app"
    by (auto simp: Let_def after_Returned split: if_splits option.splits dest: sr pv ps)
  have 4: "\<And>api name app s app' s'. writeSchemaRef (Suc n) api name app s = Some (Returned app' s')
      \<Longrightarrow> seenSchemaRefs app' = seenSchemaRefs app"
    by (auto split: if_splits option.splits outcome.splits dest!: ob)
  have 5: "\<And>api r app s app' s'. writeProperties (Suc n) api r app s = Some (Returned app' s')
      \<Longrightarrow> seenSchemaRefs app' = seenSchemaRefs app"
    by (simp, erule forEachEntry_seen [rotated])
       (auto simp: after_Returned split: if_splits dest: sr pv ob)
  from 1 2 3 4 5 show ?case by blast
qed

lemma guard_restored_on_return:
  "writeSchemaRef n api name app scope = Some (Returned app' scope')
   \<Longrightarrow> seenSchemaRefs app' = seenSchemaRefs app"
  by (rule seen_restored_all [THEN conjunct2, THEN conjunct2, THEN conjunct2, THEN conjunct1,
        rule_format])

text \<open>
  C3 does not hold of the code. \<open>writeSchemaRef\<close> adds the name, calls \<open>writeObject\<close> and
  deletes the name, with no \<open>finally\<close>: when the expansion throws, the name stays in the set
  of the \<open>App\<close>. Here the schema \<open>A\<close> has a property of an unknown type; after the throw the
  set is \<open>{A}\<close>, and a later expansion of \<open>A\<close> with that \<open>App\<close> writes \<open>undefined\<close>.
\<close>

theorem guard_leaks_on_throw:
  "writeSchemaRef (Suc (Suc (Suc (Suc 0)))) leakDoc (str ''A'')
     \<lparr>seenSchemaRefs = {}\<rparr> \<lparr>buffer = [], indent = 0\<rparr>
   = Some (Threw (UnknownScalarType (Some (str ''weird''))) \<lparr>seenSchemaRefs = {str ''A''}\<rparr>
       \<lparr>buffer = str ''{'' @ [10] @ str ''    x: '', indent = 1\<rparr>)
   \<and> writeSchemaRef (Suc (Suc (Suc (Suc 0)))) leakDoc (str ''A'')
     \<lparr>seenSchemaRefs = {str ''A''}\<rparr> \<lparr>buffer = [], indent = 0\<rparr>
   = Some (Returned \<lparr>seenSchemaRefs = {str ''A''}\<rparr> \<lparr>buffer = str ''undefined'', indent = 0\<rparr>)"
  by (simp add: leakDoc_def document_def object_def typed_def order_defs writer_defs
      formatPropertyName_def cong: forEachEntry_weak_cong)

text \<open>The guard itself: a name under expansion is written as \<open>undefined\<close>.\<close>

lemma inner_expansion_undefined:
  "name \<in> seenSchemaRefs app
   \<Longrightarrow> writeSchemaRef (Suc n) api name app scope
       = Some (Returned app (write_chunk (str ''undefined'') scope))"
  by simp

lemma self_reference_undefined:
  "writeSchemaRef (Suc (Suc (Suc (Suc 0)))) selfDoc (str ''A'')
     \<lparr>seenSchemaRefs = {}\<rparr> \<lparr>buffer = [], indent = 0\<rparr>
   = Some (Returned \<lparr>seenSchemaRefs = {}\<rparr>
       \<lparr>buffer = str ''{'' @ [10] @ str ''    self: undefined,'' @ [10] @ str ''}'', indent = 0\<rparr>)"
  by (simp add: selfDoc_def document_def object_def reference_def order_defs writer_defs
      formatPropertyName_def cong: forEachEntry_weak_cong)

text \<open>
  A node of type \<open>object\<close> without \<open>properties\<close> and without \<open>additionalProperties\<close>:
  \<open>writeObject\<close> hands it to \<open>writePropertyValue\<close>, which hands it back.
\<close>

lemma bare_object_loops:
  assumes "s_type p = Some (str ''object'')" and "s_properties p = None"
    and "s_additionalProperties p = None"
  shows "writeObject n api p app s = None \<and> writePropertyValue n api p app s = None"
  using assms by (induction n arbitrary: app s) simp_all

lemmas bare_object_writeObject = bare_object_loops [THEN conjunct1]

text \<open>
  C4 does not hold of the code. The schema \<open>A\<close> refers to itself in the property \<open>self\<close> and
  has a property \<open>extra\<close> of type \<open>object\<close> with neither \<open>properties\<close> nor
  \<open>additionalProperties\<close>. No depth of calls is enough for the expansion of \<open>A\<close> to come
  back: the generator recurses without end on \<open>extra\<close>, before it reaches \<open>self\<close>.
\<close>

theorem bare_object_never_returns:
  "writeSchemaRef n loopDoc (str ''A'') \<lparr>seenSchemaRefs = {}\<rparr> \<lparr>buffer = [], indent = 0\<rparr> = None"
proof -
  let ?props = "[(str ''extra'', typed (str ''object'')), (str ''self'', reference (str ''A''))]"
  have p: "writeProperties m api ?props app s = None" for m api app s
    by (cases m) (simp_all add: order_defs bare_object_writeObject typed_def
        cong: forEachEntry_weak_cong)
  have o: "writeObject m api (object ?props) app s = None" for m api app s
    by (cases m) (simp_all add: object_def p [simplified])
  show ?thesis
    by (cases n) (simp_all add: loopDoc_def document_def o [simplified])
qed

section \<open>Order of the entries in the usage stub\<close>

lemma sortDocument_nestedDoc: "sortDocument nestedDoc = Inr nestedDoc"
  by (simp add: sortDocument_def nestedDoc_def document_def sortKeys_def order_defs toLowerCase_def call_def)

lemma writeTests_nestedDoc: "writeTests (Suc (Suc (Suc 0))) \<lparr>seenSchemaRefs = {}\<rparr> [] nestedDoc False []
   = Some (Returned \<lparr>seenSchemaRefs = {}\<rparr> \<lparr>buffer = str ''/* This is stub file for gapi.client.demo definition tests */'' @ [10] @ str ''/* IMPORTANT.'' @ [10] @ str ''* This file was automatically generated by https://github.com/declanvong/google-api-typings-generator. Please do not edit it manually.'' @ [10] @ str ''* In case of any problems please post issue to https://github.com/declanvong/google-api-typings-generator'' @ [10] @ str ''**/'' @ [10] @ str ''gapi.load('' @ [39] @ str ''client'' @ [39] @ str '', () => {'' @ [10] @ str ''    /** now we can use gapi.client */'' @ [10] @ str ''    gapi.client.load('' @ [39] @ str ''demo'' @ [39] @ str '', '' @ [39] @ str ''v1'' @ [39] @ str '', () => {'' @ [10] @ str ''        /** now we can use gapi.client.demo */'' @ [10, 10] @ str ''        run();'' @ [10] @ str ''    });'' @ [10, 10] @ str ''    async function run() {'' @ [10] @ str ''        await gapi.client.demo.r.x();'' @ [10] @ str ''        await gapi.client.demo.r.zeta.m();'' @ [10] @ str ''        await gapi.client.demo.r.alpha.m();'' @ [10] @ str ''    }'' @ [10] @ str ''});'' @ [10], indent = 0\<rparr>)"
  by (simp add: writeTests_def nestedDoc_def document_def call_def writeResourceTests.simps
      writeMethodTest_def comment_def commentLines_def trim_def isWhiteSpace_def wrapLine_def maxLine_def
      escapeStars_def replaceAll_def replaceIrregular_def irregylarSpaces_def isLineBreak_def
      writer_defs cong: forEachEntry_weak_cong)

text \<open>
  C5 does not hold of the code. The declaration file visits every mapping through
  \<open>forEachOrdered\<close>. The usage stub visits resources and methods with \<open>for ... in\<close>, in the
  order of the document, and \<open>processService\<close> sorts only the root resources and their
  methods beforehand. In this document the resource \<open>r\<close> has the sub-resources \<open>zeta\<close> and
  \<open>alpha\<close>, in that order, and the stub calls \<open>zeta.m\<close> before \<open>alpha.m\<close>.
\<close>

theorem nested_methods_in_input_order: "\<exists>declarations. processService (Suc (Suc (Suc 0))) \<lparr>seenSchemaRefs = {}\<rparr> [] nestedDoc False []
   = Some (Inr (declarations, Returned \<lparr>seenSchemaRefs = {}\<rparr> \<lparr>buffer = str ''/* This is stub file for gapi.client.demo definition tests */'' @ [10] @ str ''/* IMPORTANT.'' @ [10] @ str ''* This file was automatically generated by https://github.com/declanvong/google-api-typings-generator. Please do not edit it manually.'' @ [10] @ str ''* In case of any problems please post issue to https://github.com/declanvong/google-api-typings-generator'' @ [10] @ str ''**/'' @ [10] @ str ''gapi.load('' @ [39] @ str ''client'' @ [39] @ str '', () => {'' @ [10] @ str ''    /** now we can use gapi.client */'' @ [10] @ str ''    gapi.client.load('' @ [39] @ str ''demo'' @ [39] @ str '', '' @ [39] @ str ''v1'' @ [39] @ str '', () => {'' @ [10] @ str ''        /** now we can use gapi.client.demo */'' @ [10, 10] @ str ''        run();'' @ [10] @ str ''    });'' @ [10, 10] @ str ''    async function run() {'' @ [10] @ str ''        await gapi.client.demo.r.x();'' @ [10] @ str ''        await gapi.client.demo.r.zeta.m();'' @ [10] @ str ''        await gapi.client.demo.r.alpha.m();'' @ [10] @ str ''    }'' @ [10] @ str ''});'' @ [10], indent = 0\<rparr>))"
  unfolding processService_def sortDocument_nestedDoc writeTests_nestedDoc sum.case option.map
  by (simp add: processApi_def nestedDoc_def document_def call_def
      fileHeader_def referenceTypes_def declareNamespace_def namespace_def braces_def interface_def
      anonymysType_def loadParameters_def method_decl_def writeR_def convertVersion_def isDigit_def
      writeResources.simps writeMethod_def requestBody_def getMethodReturn_def getName_def
      getResourceTypeName_def toUpperCase_def writeResourceConst_def forEachOrdered_def
      spread_def
      order_defs comment_defs writer_defs formatPropertyName_def optionalMark_def
      cong: iterate_weak_cong)

section \<open>Comment normalisation\<close>

lemma replaceAll_single: "replaceAll c [d] s = map (\<lambda>x. if x = c then d else x) s"
  by (induction s) (simp_all add: replaceAll_def)

lemma fold_replace:
  "32 \<notin> set cs \<Longrightarrow>
   fold (\<lambda>c ls. map (replaceAll c [32]) ls) cs lines
   = map (map (\<lambda>x. if x \<in> set cs then 32 else x)) lines"
proof (induction cs arbitrary: lines)
  case Nil
  show ?case by simp
next
  case (Cons c cs)
  then have "32 \<notin> set cs" by simp
  from Cons.IH [OF this] show ?case
    using Cons.prems by (auto simp: replaceAll_single)
qed

lemma replaceIrregular_map:
  "replaceIrregular lines = map (map (\<lambda>x. if x \<in> set irregylarSpaces then 32 else x)) lines"
  unfolding replaceIrregular_def
  by (rule fold_replace) (simp add: irregylarSpaces_def)

lemma dropWhile_concat_map:
  assumes "\<And>x. P x \<Longrightarrow> g x = [x]" and "\<And>x. \<not> P x \<Longrightarrow> g x \<noteq> [] \<and> \<not> P (hd (g x))"
  shows "dropWhile P (concat (map g s)) = concat (map g (dropWhile P s))"
proof (induction s)
  case Nil
  show ?case by simp
next
  case (Cons x s)
  show ?case
  proof (cases "P x")
    case True
    with assms(1) [OF True] Cons show ?thesis by simp
  next
    case False
    from assms(2) [OF False] obtain y ys where g: "g x = y # ys" and y: "\<not> P y"
      by (cases "g x") auto
    with False show ?thesis by simp
  qed
qed

lemma replaceAll_star: "replaceAll 42 (str ''&#42;'') s = concat (map starChar s)"
  by (simp add: replaceAll_def starChar_def [abs_def] cong: if_cong)

lemma rev_concat_map: "rev (concat (map g s)) = concat (map (rev \<circ> g) (rev s))"
  by (induction s) simp_all

lemma trim_star: "trim (concat (map starChar s)) = concat (map starChar (trim s))"
proof -
  have 1: "dropWhile isWhiteSpace (concat (map starChar t))
           = concat (map starChar (dropWhile isWhiteSpace t))" for t
    by (rule dropWhile_concat_map) (auto simp: starChar_def isWhiteSpace_def)
  have 2: "dropWhile isWhiteSpace (concat (map (rev \<circ> starChar) t))
           = concat (map (rev \<circ> starChar) (dropWhile isWhiteSpace t))" for t
    by (rule dropWhile_concat_map) (auto simp: starChar_def isWhiteSpace_def)
  have 4: "rev \<circ> (rev \<circ> starChar) = starChar"
    by (simp add: fun_eq_iff)
  show ?thesis
    unfolding trim_def 1 rev_concat_map 2 4 ..
qed

lemma escapeStars_trim: "escapeStars x = concat (map starChar (trim x))"
  unfolding escapeStars_def replaceAll_star trim_star ..

lemma normalize_line:
  "map (\<lambda>x. if x \<in> set irregylarSpaces then 32 else x) (concat (map starChar l))
   = concat (map normalizeChar l)"
  by (induction l) (auto simp: starChar_def normalizeChar_def irregylarSpaces_def)

lemma commentLines_normalised:
  "commentLines text =
     map (\<lambda>l. concat (map normalizeChar (trim l))) (concat (map wrapLine (splitLines (trim text))))"
  by (simp add: commentLines_def replaceIrregular_map escapeStars_trim normalize_line comp_def)

lemma consHead_ne [simp]: "consHead x ws \<noteq> []"
  by (cases ws) simp_all

lemma split_ne [simp]: "split c s \<noteq> []"
  by (induction s) simp_all

lemma split_no_sep: "c \<notin> set w \<Longrightarrow> split c w = [w]"
  by (induction w) auto

lemma split_append_sep: "split c (a @ c # b) = split c a @ split c b"
proof (induction a)
  case Nil
  show ?case by simp
next
  case (Cons x a)
  show ?case
  proof (cases "x = c")
    case True
    with Cons show ?thesis by simp
  next
    case False
    obtain w ws where s: "split c a = w # ws" by (cases "split c a") simp_all
    with False Cons show ?thesis by simp
  qed
qed

lemma split_words_no_sep: "w \<in> set (split c s) \<Longrightarrow> c \<notin> set w"
proof (induction s arbitrary: w)
  case Nil
  then show ?case by simp
next
  case (Cons x s)
  show ?case
  proof (cases "x = c")
    case True
    with Cons show ?thesis by auto
  next
    case False
    obtain v vs where s: "split c s = v # vs" by (cases "split c s") simp_all
    with False Cons.prems have "w = x # v \<or> w \<in> set vs" by simp
    with Cons.IH [of v] Cons.IH [of w] s False show ?thesis by auto
  qed
qed

lemma wrapWords_words:
  "\<forall>w \<in> set ws. 32 \<notin> set w \<Longrightarrow>
   filter (\<lambda>w. w \<noteq> []) (concat (map (split 32) (wrapWords ws cur)))
   = filter (\<lambda>w. w \<noteq> []) (split 32 cur @ ws)"
proof (induction ws arbitrary: cur)
  case Nil
  show ?case by simp
next
  case (Cons word ws)
  then have w: "32 \<notin> set word" and ws: "\<forall>w \<in> set ws. 32 \<notin> set w" by simp_all
  note ih = Cons.IH [OF ws]
  show ?case
    by (simp add: ih split_no_sep [OF w] split_append_sep)
qed

lemma wrapLine_words:
  "filter (\<lambda>w. w \<noteq> []) (concat (map (split 32) (wrapLine line)))
   = filter (\<lambda>w. w \<noteq> []) (split 32 line)"
  by (simp add: wrapLine_def wrapWords_words split_words_no_sep)

lemma wrapWords_bound:
  "\<forall>w \<in> set ws. 32 \<notin> set w \<Longrightarrow> length cur \<le> 151 \<or> 32 \<notin> set cur \<Longrightarrow>
   \<forall>l \<in> set (wrapWords ws cur). length l \<le> 151 \<or> 32 \<notin> set l"
proof (induction ws arbitrary: cur)
  case Nil
  then show ?case by simp
next
  case (Cons word ws)
  then have w: "32 \<notin> set word" and ws: "\<forall>w \<in> set ws. 32 \<notin> set w" by simp_all
  note ih = Cons.IH [OF ws]
  show ?case
    using ih [of word] ih [of "cur @ [32] @ word"] Cons.prems(2) w
    by (auto simp: maxLine_def)
qed

lemma wrapLine_bound: "\<forall>l \<in> set (wrapLine line). length l \<le> 151 \<or> 32 \<notin> set l"
  using wrapWords_bound [of "split 32 line" "[]"]
  by (auto simp: wrapLine_def maxLine_def split_words_no_sep)

text \<open>
  C8, as the claim states it, fails at the two ends of a line. \<open>comment\<close> trims the text
  before it splits it, and trims each line again before it replaces the irregular spaces; a
  no-break space that ends the description is removed, not replaced by a space. Replaced, it
  would leave two spaces before the closing \<open>*/\<close>.
\<close>

theorem trailing_space_counterexample:
  "commentLines (str ''a'' @ [0xA0]) = [str ''a'']
   \<and> comment (Some (str ''a'' @ [0xA0])) False \<lparr>buffer = [], indent = 0\<rparr>
       = \<lparr>buffer = str ''/** a */'' @ [10], indent = 0\<rparr>"
proof -
  have "commentLines (str ''a'' @ [0xA0]) = [str ''a'']"
    by (simp add: commentLines_normalised trim_def isWhiteSpace_def isLineBreak_def wrapLine_def
        maxLine_def normalizeChar_def irregylarSpaces_def)
  then show ?thesis
    by (simp add: comment_def writeLine_def startIndentedLine_def write_chunk_def tabs_def
        newLine_def)
qed

text \<open>
  C8, amended. The list \<open>irregylarSpaces\<close> holds 24 distinct code points, U+00A0 among them.
  Each line of a comment is a line of the wrapped text, with the white space at its two ends
  removed as \<open>trim\<close> does, every \<open>*\<close> replaced by \<open>&#42;\<close> and every irregular space that is
  left replaced by one ASCII space. A line of at most 150 characters is left whole; the lines
  made from a longer one hold the same words in the same order, so no word is split, and
  each of them is one word or at most 151 characters long (the test of the source does not
  count the joining space).
\<close>

theorem comment_normalisation:
  "length irregylarSpaces = 24 \<and> distinct irregylarSpaces \<and> 0xA0 \<in> set irregylarSpaces
   \<and> commentLines text =
       map (\<lambda>l. concat (map normalizeChar (trim l)))
         (concat (map wrapLine (splitLines (trim text))))
   \<and> (length line \<le> 150 \<longrightarrow> wrapLine line = [line])
   \<and> filter (\<lambda>w. w \<noteq> []) (concat (map (split 32) (wrapLine line)))
       = filter (\<lambda>w. w \<noteq> []) (split 32 line)
   \<and> (\<forall>l \<in> set (wrapLine line). length l \<le> 151 \<or> 32 \<notin> set l)"
proof -
  have "length irregylarSpaces = 24 \<and> distinct irregylarSpaces \<and> 0xA0 \<in> set irregylarSpaces"
    by (simp add: irregylarSpaces_def)
  moreover have "length line \<le> 150 \<longrightarrow> wrapLine line = [line]"
    by (simp add: wrapLine_def maxLine_def)
  ultimately show ?thesis
    using commentLines_normalised [of "text"] wrapLine_words [of line] wrapLine_bound [of line]
    by blast
qed

theorem comment_normalisation_witness:
  "commentLines (str ''a*b'' @ [0xA0] @ str ''c'') = [str ''a&#42;b c'']
   \<and> comment (Some (str ''a*b'' @ [0xA0] @ str ''c'')) False \<lparr>buffer = [], indent = 0\<rparr>
       = \<lparr>buffer = str ''/** a&#42;b c */'' @ [10], indent = 0\<rparr>
   \<and> wrapLine (str ''two words'') = [str ''two words'']"
proof -
  let ?t = "str ''a*b'' @ [0xA0] @ str ''c''"
  have 1: "commentLines ?t = [str ''a&#42;b c'']"
    using comment_normalisation [of ?t "[]", THEN conjunct2, THEN conjunct2, THEN conjunct2,
        THEN conjunct1]
    by (simp add: trim_def isWhiteSpace_def isLineBreak_def wrapLine_def maxLine_def
        normalizeChar_def irregylarSpaces_def)
  have 2: "wrapLine (str ''two words'') = [str ''two words'']"
    using comment_normalisation [of "[]" "str ''two words''", THEN conjunct2, THEN conjunct2,
        THEN conjunct2, THEN conjunct2, THEN conjunct1]
    by simp
  show ?thesis
    using 1 2 by (simp add: comment_def writeLine_def startIndentedLine_def write_chunk_def
        tabs_def newLine_def)
qed

section \<open>The order of \<open>forEachOrdered\<close>\<close>

text \<open>
  \<open>forEachOrdered\<close> visits the entries of a record by ascending key, whatever the order of
  the keys in the record. The declaration file goes through it for the schemas, for the
  properties and for the resources and methods of every level.
\<close>

lemma insertKey_insort: "insertKey a bs = insort a bs"
  by (induction bs) (auto simp: compareKeys_def)

lemma sortStrings_sort: "sortStrings ks = sort ks"
  by (induction ks) (simp_all add: sortStrings_def insertKey_insort)

lemma keysOrdered_sort: "keysOrdered r = sort (map fst r)"
  by (simp add: keysOrdered_def sortStrings_sort)



lemma lookup_keys_fst:
  "set ks \<subseteq> fst ` set r \<Longrightarrow>
   map fst (List.map_filter (\<lambda>key. map_option (Pair key) (map_of r key)) ks) = ks"
proof (induction ks)
  case Nil
  show ?case by simp
next
  case (Cons k ks)
  then obtain v where "map_of r k = Some v"
    by (cases "map_of r k") (auto simp: map_of_eq_None_iff)
  with Cons show ?case by simp
qed

lemma orderedEntries_keys: "map fst (orderedEntries r) = sort (map fst r)"
  unfolding orderedEntries_def keysOrdered_sort
  by (rule lookup_keys_fst) simp

lemma orderedEntries_sorted:
  "sorted (map fst (orderedEntries r))"
  by (simp add: orderedEntries_keys)

lemma orderedEntries_order_independent:
  assumes "distinct (map fst r)" and "distinct (map fst r')" and "set r = set r'"
  shows "orderedEntries r = orderedEntries r'"
proof -
  have m: "map_of r = map_of r'"
    using assms by (simp add: map_of_inject_set)
  have "set (map fst r) = set (map fst r')" using assms(3) by simp
  then have "sort (map fst r) = sort (map fst r')"
    using assms(1,2)
    by (intro sorted_distinct_set_unique) simp_all
  with m show ?thesis by (simp add: orderedEntries_def keysOrdered_sort)
qed

lemma forEachOrdered_order_independent:
  assumes "distinct (map fst r)" and "distinct (map fst r')" and "set r = set r'"
  shows "forEachOrdered (Some r) f s = forEachOrdered (Some r') f s"
  by (simp add: forEachOrdered_def orderedEntries_order_independent [OF assms])

lemma orderedEntries_example:
  "map fst (orderedEntries [(str ''zeta'', a), (str ''alpha'', b), (str ''mid'', c)])
   = [str ''alpha'', str ''mid'', str ''zeta'']"
  by (simp add: orderedEntries_def keysOrdered_def sortStrings_def compareKeys_def)

section \<open>Resources in the declaration file\<close>









lemma ext_buffer: "ext w w' \<Longrightarrow> \<exists>t. buffer w' = buffer w @ t"
  by (simp add: ext_def)






end
